theory Spec2Isabelle
  imports Complex_Main "HOL-Library.Word"
begin

section \<open>JavaScript values used by the services\<close>

text \<open>
  A JavaScript string is a sequence of UTF-16 code units; indexing (\<open>word[i]\<close>),
  \<open>length\<close> and \<open>===\<close> all work on code units, so a string is a list of code units
  here. \<open>js\<close> turns an ASCII literal into such a list. The numbers of the feature
  extraction are modelled by exact reals: rounding to binary64 or to the 32-bit elements of
  a \<open>Float32Array\<close> is not modelled there. The division of \<open>normalize\<close>, whose divisor can
  be zero, has its result in \<open>jsnum\<close>, which also holds NaN and the infinities. The event
  times of the viseme timeline are rounded to binary64 (\<open>binary64\<close> below).
\<close>

type_synonym codeunit = nat
type_synonym jsstring = "codeunit list"
type_synonym byte = "8 word"

definition js :: "string \<Rightarrow> jsstring" where
  "js s = map of_char s"

text \<open>The white space of \<open>\s\<close> and of \<open>String.prototype.trim\<close> (ECMAScript WhiteSpace and
  LineTerminator).\<close>

definition is_space :: "codeunit \<Rightarrow> bool" where
  "is_space c \<longleftrightarrow>
     c \<in> set [0x9, 0xA, 0xB, 0xC, 0xD, 0x20, 0xA0, 0x1680, 0x2028, 0x2029, 0x202F, 0x205F,
               0x3000, 0xFEFF]
     \<or> (0x2000 \<le> c \<and> c \<le> 0x200A)"

text \<open>\<open>s.toLowerCase()\<close> on Basic Latin and Latin-1 Supplement; code units outside those
  blocks are left as they are (the remaining Unicode case mappings are not modelled, and no
  property below depends on which letters are lowered).\<close>

definition lower_unit :: "codeunit \<Rightarrow> codeunit" where
  "lower_unit c =
     (if (0x41 \<le> c \<and> c \<le> 0x5A) \<or> (0xC0 \<le> c \<and> c \<le> 0xDE \<and> c \<noteq> 0xD7) then c + 0x20 else c)"

definition toLowerCase :: "jsstring \<Rightarrow> jsstring" where
  "toLowerCase s = map lower_unit s"

text \<open>\<open>s.split(/\s+/)\<close>: the pieces between maximal runs of white space. A leading or a
  trailing run leaves an empty first or last piece, and the empty string gives one empty
  piece.\<close>

function split_ws :: "jsstring \<Rightarrow> jsstring list" where
  "split_ws [] = [[]]"
| "split_ws (c # cs) =
     (if is_space c then [] # split_ws (dropWhile is_space cs)
      else (case split_ws cs of [] \<Rightarrow> [[c]] | w # ws \<Rightarrow> (c # w) # ws))"
  by pat_completeness auto
termination
  by (relation "measure length") (auto simp: less_Suc_eq_le length_dropWhile_le)

text \<open>\<open>s.split(',')\<close> for a one-unit separator.\<close>

fun split_on :: "codeunit \<Rightarrow> jsstring \<Rightarrow> jsstring list" where
  "split_on sep [] = [[]]"
| "split_on sep (c # cs) =
     (if c = sep then [] # split_on sep cs
      else (case split_on sep cs of [] \<Rightarrow> [[c]] | w # ws \<Rightarrow> (c # w) # ws))"

text \<open>\<open>parts.join(' ')\<close> and \<open>s.trim()\<close>.\<close>

fun join :: "jsstring \<Rightarrow> jsstring list \<Rightarrow> jsstring" where
  "join sep [] = []"
| "join sep [x] = x"
| "join sep (x # y # ys) = x @ sep @ join sep (y # ys)"

definition trim :: "jsstring \<Rightarrow> jsstring" where
  "trim s = rev (dropWhile is_space (rev (dropWhile is_space s)))"

text \<open>An object literal \<open>{k1: v1, k2: v2, ...}\<close> is its list of own properties in source
  order; \<open>obj_get\<close> reads an own property, a later duplicate key overriding an earlier one.\<close>

fun obj_get :: "('k \<times> 'v) list \<Rightarrow> 'k \<Rightarrow> 'v option" where
  "obj_get [] k = None"
| "obj_get ((a, b) # rest) k =
     (case obj_get rest k of Some v \<Rightarrow> Some v | None \<Rightarrow> if a = k then Some b else None)"

text \<open>The result of a JavaScript division of finite numbers: IEEE 754 gives NaN for
  \<open>0/0\<close> and an infinity for any other division by zero; nothing is thrown.\<close>

datatype jsnum = Fin real | NaN | PosInf | NegInf

definition js_div :: "real \<Rightarrow> real \<Rightarrow> jsnum" where
  "js_div a b =
     (if b = 0 then (if a = 0 then NaN else if 0 < a then PosInf else NegInf)
      else Fin (a / b))"

text \<open>Where the rounding of a result bears on a stated property (the event times of
  \<open>generateLipSyncFromText\<close>), the result of an arithmetic operation is rounded as IEEE 754
  binary64 rounds it: to the nearest representable number, a tie going to the even
  significand. \<open>binary64 x\<close> is that number for a real \<open>x\<close> of magnitude below \<open>2 ^ 1024\<close>
  (the overflow to an infinity is not modelled). The exponent is clamped at \<open>-1022\<close>, which
  gives the spacing of the subnormal numbers.\<close>

definition round_half_even :: "real \<Rightarrow> int" where
  "round_half_even q =
     (let n = \<lfloor>q\<rfloor>; r = q - real_of_int n
      in if r < 1 / 2 then n else if 1 / 2 < r then n + 1 else if even n then n else n + 1)"

definition binary64 :: "real \<Rightarrow> real" where
  "binary64 x =
     (if x = 0 then 0
      else let e = max \<lfloor>log 2 \<bar>x\<bar>\<rfloor> (- 1022);
               ulp = 2 powr real_of_int (e - 52)
           in real_of_int (round_half_even (x / ulp)) * ulp)"

datatype error =
    RangeError
  | VocabularyNotLoaded
  | TranslationNotSupported jsstring jsstring
  | UnsupportedAudioDataType
  | InvalidCharacterError

section \<open>utils/phonemes.js\<close>

definition PHONEMES :: "(jsstring \<times> jsstring) list" where
  "PHONEMES =
    [(js ''i'', js ''EE''), ([0x26A], js ''IH''), (js ''e'', js ''EH''), ([0xE6], js ''AA''),
     ([0x251], js ''AA''), ([0x254], js ''AW''), ([0x6F, 0x28A], js ''OW''),
     ([0x28A], js ''UH''), (js ''u'', js ''UW''), ([0x28C], js ''AH''),
     ([0x25C, 0x72], js ''ER''), ([0x259, 0x72], js ''ER''),
     (js ''p'', js ''PP''), (js ''b'', js ''BB''), (js ''t'', js ''DD''), (js ''d'', js ''DD''),
     (js ''k'', js ''KK''), (js ''g'', js ''GG''), (js ''f'', js ''FF''), (js ''v'', js ''VV''),
     ([0x3B8], js ''TH''), ([0xF0], js ''TH''), (js ''s'', js ''SS''), (js ''z'', js ''ZZ''),
     ([0x283], js ''SH''), ([0x292], js ''ZH''), (js ''h'', js ''HH''), (js ''m'', js ''MM''),
     (js ''n'', js ''NN''), ([0x14B], js ''NG''), (js ''l'', js ''LL''), (js ''r'', js ''RR''),
     (js ''w'', js ''WW''), (js ''j'', js ''YY''),
     (js ''x'', js ''HH''), ([0x272], js ''NN''), ([0x28E], js ''LL''), ([0x27E], js ''DD''),
     (js ''r'', js ''RR'')]"

definition VISEMES :: "(jsstring \<times> jsstring) list" where
  "VISEMES =
    [(js ''AA'', js ''viseme_aa''), (js ''IH'', js ''viseme_ih''), (js ''EH'', js ''viseme_eh''),
     (js ''AH'', js ''viseme_ah''), (js ''AW'', js ''viseme_aw''), (js ''OW'', js ''viseme_ow''),
     (js ''UW'', js ''viseme_uw''), (js ''UH'', js ''viseme_uh''), (js ''ER'', js ''viseme_er''),
     (js ''PP'', js ''viseme_pp''), (js ''BB'', js ''viseme_bb''), (js ''DD'', js ''viseme_dd''),
     (js ''KK'', js ''viseme_kk''), (js ''GG'', js ''viseme_gg''), (js ''FF'', js ''viseme_ff''),
     (js ''VV'', js ''viseme_vv''), (js ''TH'', js ''viseme_th''), (js ''SS'', js ''viseme_ss''),
     (js ''ZZ'', js ''viseme_zz''), (js ''SH'', js ''viseme_sh''), (js ''ZH'', js ''viseme_zh''),
     (js ''HH'', js ''viseme_hh''), (js ''MM'', js ''viseme_mm''), (js ''NN'', js ''viseme_nn''),
     (js ''NG'', js ''viseme_ng''), (js ''LL'', js ''viseme_ll''), (js ''RR'', js ''viseme_rr''),
     (js ''WW'', js ''viseme_ww''), (js ''YY'', js ''viseme_yy''),
     (js ''REST'', js ''viseme_rest'')]"

text \<open>\<open>phonemeToViseme\<close>. The result is \<open>None\<close> where the source returns \<open>undefined\<close>:
  \<open>PHONEMES\<close> maps \<open>i\<close> to \<open>EE\<close>, which \<open>VISEMES\<close> does not have. Both tables are read
  as own properties: the keys looked up here have one or two code units, shorter than every
  property name inherited from \<open>Object.prototype\<close>.\<close>

definition phonemeToViseme :: "jsstring \<Rightarrow> jsstring option" where
  "phonemeToViseme ph =
     (let normalized = toLowerCase ph in
      case obj_get PHONEMES normalized of
        Some v \<Rightarrow> (if v \<noteq> [] then obj_get VISEMES v else obj_get VISEMES (js ''REST''))
      | None \<Rightarrow> obj_get VISEMES (js ''REST''))"

definition englishPhonemes :: "(jsstring \<times> jsstring) list" where
  "englishPhonemes =
    [(js ''a'', [0xE6]), (js ''e'', js ''e''), (js ''i'', [0x26A]), (js ''o'', [0x6F, 0x28A]),
     (js ''u'', js ''u''),
     (js ''th'', [0x3B8]), (js ''sh'', [0x283]), (js ''ch'', [0x74, 0x283]), (js ''ng'', [0x14B]),
     (js ''ar'', [0x251, 0x72]), (js ''er'', [0x259, 0x72]), (js ''or'', [0x254, 0x72])]"

definition spanishPhonemes :: "(jsstring \<times> jsstring) list" where
  "spanishPhonemes =
    [(js ''a'', js ''a''), (js ''e'', js ''e''), (js ''i'', js ''i''), (js ''o'', js ''o''),
     (js ''u'', js ''u''),
     ([0xF1], [0x272]), (js ''ll'', [0x28E]), (js ''rr'', js ''r''), (js ''j'', js ''x'')]"

text \<open>\<open>if (phonemeMap[key])\<close>: the entry when it is there and not the empty string.\<close>

definition truthy_get :: "(jsstring \<times> jsstring) list \<Rightarrow> jsstring \<Rightarrow> jsstring option" where
  "truthy_get m k = (case obj_get m k of Some v \<Rightarrow> (if v = [] then None else Some v) | None \<Rightarrow> None)"

text \<open>The inner loop of \<open>textToPhonemes\<close> over one word. At the last character
  \<open>word[i + 1]\<close> is \<open>undefined\<close> and \<open>char + nextChar\<close> is the character followed by the
  text \<open>undefined\<close>. A two-character hit skips the next character (\<open>i++\<close>).\<close>

fun word_phonemes :: "(jsstring \<times> jsstring) list \<Rightarrow> jsstring \<Rightarrow> jsstring list" where
  "word_phonemes m [] = []"
| "word_phonemes m [c] =
     (case truthy_get m (c # js ''undefined'') of
        Some p \<Rightarrow> [p]
      | None \<Rightarrow> (case truthy_get m [c] of Some p \<Rightarrow> [p] | None \<Rightarrow> [[c]]))"
| "word_phonemes m (c # d # cs) =
     (case truthy_get m [c, d] of
        Some p \<Rightarrow> p # word_phonemes m cs
      | None \<Rightarrow>
          (case truthy_get m [c] of Some p \<Rightarrow> p | None \<Rightarrow> [c]) # word_phonemes m (d # cs))"

definition textToPhonemes :: "jsstring \<Rightarrow> jsstring \<Rightarrow> jsstring list" where
  "textToPhonemes text language =
     (let phonemeMap = (if language = js ''es'' then spanishPhonemes else englishPhonemes);
          words = split_ws (toLowerCase text);
          phonemes = concat (map (\<lambda>word. word_phonemes phonemeMap word @ [js '' '']) words)
      in filter (\<lambda>p. p \<noteq> js '' '') phonemes)"

record visemeEntry =
  phoneme :: jsstring
  viseme :: "jsstring option"
  duration :: real

definition generateVisemeSequence :: "jsstring \<Rightarrow> jsstring \<Rightarrow> visemeEntry list" where
  "generateVisemeSequence text language =
     map (\<lambda>ph. \<lparr>phoneme = ph, viseme = phonemeToViseme ph, duration = binary64 (1 / 10)\<rparr>)
       (textToPhonemes text language)"

section \<open>services/lipSync.js\<close>

record timedViseme = visemeEntry +
  startTime :: real
  endTime :: real

text \<open>\<open>generateLipSyncFromText\<close>. The quotient and the two products are binary64
  operations, each rounded; \<open>index + 1\<close> is exact. With no visemes the quotient
  \<open>duration / 0\<close> is an infinity or NaN in the source and is never used, the \<open>map\<close>
  running over an empty array; nothing is thrown.\<close>

definition generateLipSyncFromText :: "jsstring \<Rightarrow> jsstring \<Rightarrow> real \<Rightarrow> timedViseme list" where
  "generateLipSyncFromText text language dur =
     (let visemes = generateVisemeSequence text language;
          visemeDuration = binary64 (dur / real (length visemes))
      in map (\<lambda>(index, v).
                \<lparr>phoneme = phoneme v, viseme = viseme v, duration = duration v,
                 startTime = binary64 (real index * visemeDuration),
                 endTime = binary64 ((real index + 1) * visemeDuration)\<rparr>)
           (enumerate 0 visemes))"

text \<open>The state of a \<open>LipSyncService\<close>. \<open>onVisemeChange\<close> tells whether a callback is
  registered and \<open>notified\<close> lists the arguments it has been called with, oldest first;
  \<open>animationFrame\<close> tells whether a frame request is pending. The clock
  (\<open>audioContext.currentTime\<close>) is read by \<open>animate\<close> and is its first argument.\<close>

record lipSyncService =
  currentViseme :: "jsstring option"
  visemeQueue :: "timedViseme list"
  isPlaying :: bool
  animationFrame :: bool
  onVisemeChange :: bool
  notified :: "jsstring option list"

definition viseme_rest :: "jsstring option" where
  "viseme_rest = Some (js ''viseme_rest'')"

definition newLipSyncService :: lipSyncService where
  "newLipSyncService =
     \<lparr>currentViseme = viseme_rest, visemeQueue = [], isPlaying = False,
      animationFrame = False, onVisemeChange = False, notified = []\<rparr>"

definition setViseme :: "jsstring option \<Rightarrow> lipSyncService \<Rightarrow> lipSyncService" where
  "setViseme v s =
     s\<lparr>currentViseme := v,
       notified := (if onVisemeChange s then notified s @ [v] else notified s)\<rparr>"

definition stopLipSync :: "lipSyncService \<Rightarrow> lipSyncService" where
  "stopLipSync s = setViseme viseme_rest (s\<lparr>isPlaying := False, animationFrame := False\<rparr>)"

definition animate :: "real \<Rightarrow> lipSyncService \<Rightarrow> lipSyncService" where
  "animate currentTime s =
     (if \<not> isPlaying s then s
      else
        let found = find (\<lambda>v. startTime v \<le> currentTime \<and> currentTime < endTime v)
                      (visemeQueue s);
            s1 = (case found of
                    Some v \<Rightarrow> (if viseme v \<noteq> currentViseme s then setViseme (viseme v) s else s)
                  | None \<Rightarrow> s);
            s2 = s1\<lparr>visemeQueue := filter (\<lambda>v. currentTime < endTime v) (visemeQueue s1)\<rparr>
        in if visemeQueue s2 = [] then stopLipSync s2 else s2\<lparr>animationFrame := True\<rparr>)"

definition startLipSync ::
  "timedViseme list \<Rightarrow> real \<Rightarrow> real \<Rightarrow> lipSyncService \<Rightarrow> lipSyncService" where
  "startLipSync visemeSequence start currentTime s =
     (let s1 = (if isPlaying s then stopLipSync s else s);
          s2 = s1\<lparr>visemeQueue :=
                    map (\<lambda>v. v\<lparr>startTime := startTime v + start, endTime := endTime v + start\<rparr>)
                      visemeSequence,
                  isPlaying := True\<rparr>
      in animate currentTime s2)"

text \<open>The host calls \<open>animate\<close> once per animation frame; a run of the scheduler is the
  list of clock readings of its ticks.\<close>

definition ticks :: "real list \<Rightarrow> lipSyncService \<Rightarrow> lipSyncService" where
  "ticks ts s = fold animate ts s"

section \<open>services/stt.js\<close>

text \<open>\<open>STTService.resample\<close>. The source rate is the constant 44100 of the source; the
  function has no parameter for it. \<open>targetSampleRate\<close> is a natural number, so the ratio is
  not negative and the length \<open>Math.floor(audio.length * ratio)\<close> is a valid array length.\<close>

definition resample :: "real list \<Rightarrow> nat \<Rightarrow> real list" where
  "resample audio targetSampleRate =
     (let originalSampleRate = 44100;
          ratio = real targetSampleRate / originalSampleRate;
          newLength = nat \<lfloor>real (length audio) * ratio\<rfloor>
      in map (\<lambda>i. let originalIndex = real i / ratio;
                      index1 = \<lfloor>originalIndex\<rfloor>;
                      index2 = min (index1 + 1) (int (length audio) - 1);
                      fraction = originalIndex - of_int index1
                  in audio ! nat index1 * (1 - fraction) + audio ! nat index2 * fraction)
           [0..<newLength])"

text \<open>\<open>applyWindow\<close> is called on frames of 400 samples, so the divisor
  \<open>data.length - 1\<close> of the window is 399.\<close>

definition applyWindow :: "real list \<Rightarrow> real list" where
  "applyWindow data =
     map (\<lambda>i. let windowValue = 0.54 - 0.46 * cos (2 * pi * real i / (real (length data) - 1))
              in data ! i * windowValue)
       [0..<length data]"

definition computePowerSpectrum :: "real list \<Rightarrow> real list" where
  "computePowerSpectrum data =
     (let fftSize = 512 in
      map (\<lambda>k. let re = (\<Sum>n\<leftarrow>[0..<length data].
                            data ! n * cos (- 2 * pi * real k * real n / real fftSize));
                    im = (\<Sum>n\<leftarrow>[0..<length data].
                            data ! n * sin (- 2 * pi * real k * real n / real fftSize))
                in re * re + im * im)
        [0..<fftSize div 2])"

definition applyMelFilterbank :: "real list \<Rightarrow> nat \<Rightarrow> real list" where
  "applyMelFilterbank spectrum numMels =
     map (\<lambda>mel. let sum = (\<Sum>bin\<leftarrow>[0..<length spectrum].
                             spectrum ! bin *
                             exp (- \<bar>real bin - real mel * real (length spectrum) / real numMels\<bar>))
                in ln (max sum (1 / 10 ^ 10)))
       [0..<numMels]"

text \<open>The copy loop \<open>spectrogram[frame * numMels + mel] = melFeatures[mel]\<close>.\<close>

definition copyFrame :: "real list \<Rightarrow> nat \<Rightarrow> real list \<Rightarrow> real list" where
  "copyFrame melFeatures frame spectrogram =
     foldl (\<lambda>sp mel. sp[frame * 80 + mel := melFeatures ! mel]) spectrogram [0..<80]"

text \<open>\<open>STTService.computeMelSpectrogram\<close>. \<open>numFrames\<close> is an integer that can be
  negative (\<open>div\<close> on \<open>int\<close> rounds down, as \<open>Math.floor\<close> does), and
  \<open>new Float32Array(n)\<close> throws a RangeError for a negative \<open>n\<close>.\<close>

definition computeMelSpectrogram :: "real list \<Rightarrow> error + real list" where
  "computeMelSpectrogram audio =
     (let frameSize = 400;
          hopSize = 160;
          numFrames = (int (length audio) - frameSize) div hopSize + 1;
          numMels = 80
      in if numFrames * numMels < 0 then Inl RangeError
         else Inr (foldl (\<lambda>spectrogram frame.
                      let start = frame * 160;
                          frameData = take 400 (drop start audio);
                          windowed = applyWindow frameData;
                          powerSpectrum = computePowerSpectrum windowed;
                          melFeatures = applyMelFilterbank powerSpectrum 80
                      in copyFrame melFeatures frame spectrogram)
                    (replicate (nat (numFrames * numMels)) 0)
                    [0..<nat numFrames]))"

text \<open>\<open>STTService.normalize\<close>. Every element is divided by \<open>std\<close>, whatever its value.
  For an empty spectrogram the mean is \<open>0 / 0\<close> in the source and is not used, the loop
  running no iteration.\<close>

definition spectrogram_mean :: "real list \<Rightarrow> real" where
  "spectrogram_mean spectrogram =
     foldl (\<lambda>sum val. sum + val) 0 spectrogram / real (length spectrogram)"

definition spectrogram_variance :: "real list \<Rightarrow> real" where
  "spectrogram_variance spectrogram =
     foldl (\<lambda>sum val. sum + (val - spectrogram_mean spectrogram) ^ 2) 0 spectrogram
       / real (length spectrogram)"

definition normalize :: "real list \<Rightarrow> jsnum list" where
  "normalize spectrogram =
     (let mean = spectrogram_mean spectrogram;
          variance = spectrogram_variance spectrogram;
          std = sqrt variance
      in map (\<lambda>i. js_div (spectrogram ! i - mean) std) [0..<length spectrogram])"

text \<open>The value of the local variable \<open>resampled\<close> of \<open>preprocessAudio\<close>, and the function
  itself. The test that guards the resampling reads the number of samples.\<close>

definition resampled :: "real list \<Rightarrow> real list" where
  "resampled audioData =
     (if length audioData \<noteq> 16000 then resample audioData 16000 else audioData)"

definition preprocessAudio :: "real list \<Rightarrow> error + jsnum list" where
  "preprocessAudio audioData =
     (case computeMelSpectrogram (resampled audioData) of
        Inl e \<Rightarrow> Inl e
      | Inr melSpectrogram \<Rightarrow> Inr (normalize melSpectrogram))"

text \<open>\<open>STTService.tokensToText\<close>. The vocabulary is a JSON array of symbols, \<open>None\<close>
  while it is not loaded. \<open>this.vocab[token]\<close> is \<open>undefined\<close> for an index outside the
  array; the filter drops \<open>undefined\<close>, the empty string and the two symbols it names.\<close>

definition stt_keep :: "jsstring option \<Rightarrow> bool" where
  "stt_keep token =
     (case token of None \<Rightarrow> False
      | Some t \<Rightarrow> t \<noteq> [] \<and> t \<noteq> js ''<sos>'' \<and> t \<noteq> js ''<eos>'')"

definition STT_tokensToText :: "jsstring list option \<Rightarrow> nat list \<Rightarrow> error + jsstring" where
  "STT_tokensToText vocab tokens =
     (case vocab of
        None \<Rightarrow> Inl VocabularyNotLoaded
      | Some v \<Rightarrow>
          let text = join (js '' '')
                (map the (filter stt_keep
                   (map (\<lambda>token. if token < length v then Some (v ! token) else None) tokens)))
          in Inr (trim text))"

section \<open>services/tts.js\<close>

text \<open>\<open>TTSService.normalizeAudio\<close>, the other normalization of the repository: it returns
  its input when the divisor would be zero. (\<open>Math.max()\<close> of no argument is \<open>-Infinity\<close>,
  so an empty input is scaled, to an empty output.)\<close>

definition normalizeAudio :: "real list \<Rightarrow> real list" where
  "normalizeAudio audio =
     (if audio = [] then []
      else let maxAmplitude = Max (set (map abs audio)) in
        if maxAmplitude = 0 then audio
        else let scale = 0.95 / maxAmplitude in map (\<lambda>a. a * scale) audio)"

section \<open>services/mt.js\<close>

text \<open>\<open>MTService.tokensToText\<close>. The vocabulary is a JSON object from symbols to
  indices, given by its entries in the order of \<open>Object.entries\<close>. The loop that builds
  \<open>reverseVocab\<close> lets a later entry override an earlier one with the same index.\<close>

definition mt_keep :: "jsstring option \<Rightarrow> bool" where
  "mt_keep word =
     (case word of None \<Rightarrow> False
      | Some w \<Rightarrow> w \<noteq> [] \<and> w \<noteq> js ''<sos>'' \<and> w \<noteq> js ''<eos>'' \<and> w \<noteq> js ''<unk>'')"

definition MT_tokensToText :: "(jsstring \<times> nat) list option \<Rightarrow> nat list \<Rightarrow> error + jsstring" where
  "MT_tokensToText vocab tokens =
     (case vocab of
        None \<Rightarrow> Inl VocabularyNotLoaded
      | Some v \<Rightarrow>
          let reverseVocab = map (\<lambda>(word, index). (index, word)) v;
              text = join (js '' '')
                (map the (filter mt_keep (map (\<lambda>token. obj_get reverseVocab token) tokens)))
          in Inr (trim text))"

text \<open>The two dictionaries that the constructor of \<open>DictionaryMT\<close> installs.\<close>

definition dictionary_en_es :: "(jsstring \<times> jsstring) list" where
  "dictionary_en_es =
    [(js ''hello'', js ''hola''),
     (js ''goodbye'', js ''adi'' @ [0xF3] @ js ''s''),
     (js ''thank you'', js ''gracias''),
     (js ''please'', js ''por favor''),
     (js ''yes'', js ''s'' @ [0xED]),
     (js ''no'', js ''no''),
     (js ''how are you'', js ''c'' @ [0xF3] @ js ''mo est'' @ [0xE1] @ js ''s''),
     (js ''good morning'', js ''buenos d'' @ [0xED] @ js ''as''),
     (js ''good afternoon'', js ''buenas tardes''),
     (js ''good night'', js ''buenas noches''),
     (js ''what is your name'', js ''c'' @ [0xF3] @ js ''mo te llamas''),
     (js ''my name is'', js ''me llamo''),
     (js ''nice to meet you'', js ''encantado de conocerte''),
     (js ''where are you from'', js ''de d'' @ [0xF3] @ js ''nde eres''),
     (js ''i am from'', js ''soy de''),
     (js ''do you speak english'', js ''hablas ingl'' @ [0xE9] @ js ''s''),
     (js ''do you speak spanish'', js ''hablas espa'' @ [0xF1] @ js ''ol''),
     (js ''i understand'', js ''entiendo''),
     (js ''i do not understand'', js ''no entiendo''),
     (js ''can you help me'', js ''puedes ayudarme''),
     (js ''excuse me'', js ''disculpa''),
     (js ''sorr'' @ js ''y'', js ''lo siento''),
     (js ''good'', js ''bueno''),
     (js ''bad'', js ''malo''),
     (js ''big'', js ''grande''),
     (js ''small'', js ''peque'' @ [0xF1] @ js ''o''),
     (js ''hot'', js ''caliente''),
     (js ''cold'', js ''fr'' @ [0xED] @ js ''o''),
     (js ''water'', js ''agua''),
     (js ''food'', js ''comida''),
     (js ''house'', js ''casa''),
     (js ''car'', js ''coche''),
     (js ''time'', js ''tiempo''),
     (js ''day'', js ''d'' @ [0xED] @ js ''a''),
     (js ''night'', js ''noche''),
     (js ''today'', js ''hoy''),
     (js ''tomorrow'', js ''ma'' @ [0xF1] @ js ''ana''),
     (js ''yesterday'', js ''ayer'')]"

definition dictionary_es_en :: "(jsstring \<times> jsstring) list" where
  "dictionary_es_en =
    [(js ''hola'', js ''hello''),
     (js ''adi'' @ [0xF3] @ js ''s'', js ''goodbye''),
     (js ''gracias'', js ''thank you''),
     (js ''por favor'', js ''please''),
     (js ''s'' @ [0xED], js ''yes''),
     (js ''no'', js ''no''),
     (js ''c'' @ [0xF3] @ js ''mo est'' @ [0xE1] @ js ''s'', js ''how are you''),
     (js ''buenos d'' @ [0xED] @ js ''as'', js ''good morning''),
     (js ''buenas tardes'', js ''good afternoon''),
     (js ''buenas noches'', js ''good night''),
     (js ''c'' @ [0xF3] @ js ''mo te llamas'', js ''what is your name''),
     (js ''me llamo'', js ''my name is''),
     (js ''encantado de conocerte'', js ''nice to meet you''),
     (js ''de d'' @ [0xF3] @ js ''nde eres'', js ''where are you from''),
     (js ''soy de'', js ''i am from''),
     (js ''hablas ingl'' @ [0xE9] @ js ''s'', js ''do you speak english''),
     (js ''hablas espa'' @ [0xF1] @ js ''ol'', js ''do you speak spanish''),
     (js ''entiendo'', js ''i understand''),
     (js ''no entiendo'', js ''i do not understand''),
     (js ''puedes ayudarme'', js ''can you help me''),
     (js ''disculpa'', js ''excuse me''),
     (js ''lo siento'', js ''sorr'' @ js ''y''),
     (js ''bueno'', js ''good''),
     (js ''malo'', js ''bad''),
     (js ''grande'', js ''big''),
     (js ''peque'' @ [0xF1] @ js ''o'', js ''small''),
     (js ''caliente'', js ''hot''),
     (js ''fr'' @ [0xED] @ js ''o'', js ''cold''),
     (js ''agua'', js ''water''),
     (js ''comida'', js ''food''),
     (js ''casa'', js ''house''),
     (js ''coche'', js ''car''),
     (js ''tiempo'', js ''time''),
     (js ''d'' @ [0xED] @ js ''a'', js ''day''),
     (js ''noche'', js ''night''),
     (js ''hoy'', js ''today''),
     (js ''ma'' @ [0xF1] @ js ''ana'', js ''tomorrow''),
     (js ''ayer'', js ''yesterday'')]"

definition dictionaries :: "(jsstring \<times> (jsstring \<times> jsstring) list) list" where
  "dictionaries = [(js ''en-es'', dictionary_en_es), (js ''es-en'', dictionary_es_en)]"

text \<open>A dictionary is an object literal, so \<open>dictionary[word]\<close> also finds the properties
  that every object inherits from \<open>Object.prototype\<close>; their values are functions, or the
  prototype object itself for \<open>__proto__\<close>, all truthy, and \<open>join\<close> turns them into text.
  \<open>Object_prototype\<close> lists the inherited names with that text (the text of a built-in
  function is the one V8 prints). After \<open>toLowerCase\<close> only \<open>constructor\<close> and
  \<open>__proto__\<close> can be asked for. The key of \<open>this.dictionaries[dictKey]\<close> contains a
  hyphen and is no inherited name.\<close>

definition native_function :: "string \<Rightarrow> jsstring \<times> jsstring" where
  "native_function name = (js name, js ''function '' @ js name @ js ''() { [native code] }'')"

definition Object_prototype :: "(jsstring \<times> jsstring) list" where
  "Object_prototype =
    [(js ''constructor'', js ''function Object() { [native code] }''),
     native_function ''__defineGetter__'', native_function ''__defineSetter__'',
     native_function ''hasOwnProperty'', native_function ''__lookupGetter__'',
     native_function ''__lookupSetter__'', native_function ''isPrototypeOf'',
     native_function ''propertyIsEnumerable'', native_function ''toString'',
     native_function ''valueOf'', native_function ''toLocaleString'',
     (js ''__proto__'', js ''[object Object]'')]"

text \<open>\<open>dictionary[word] || word\<close>, as \<open>join\<close> prints it.\<close>

definition dict_word :: "(jsstring \<times> jsstring) list \<Rightarrow> jsstring \<Rightarrow> jsstring" where
  "dict_word dictionary word =
     (case obj_get dictionary word of
        Some v \<Rightarrow> (if v = [] then word else v)
      | None \<Rightarrow> (case obj_get Object_prototype word of Some txt \<Rightarrow> txt | None \<Rightarrow> word))"

text \<open>\<open>DictionaryMT.translate\<close>; the first argument is the field \<open>this.dictionaries\<close>,
  which \<open>addTranslation\<close> can extend.\<close>

definition DictionaryMT_translate ::
  "(jsstring \<times> (jsstring \<times> jsstring) list) list \<Rightarrow> jsstring \<Rightarrow> jsstring \<Rightarrow> jsstring
     \<Rightarrow> error + jsstring" where
  "DictionaryMT_translate dicts text sourceLang targetLang =
     (let dictKey = sourceLang @ js ''-'' @ targetLang in
      case obj_get dicts dictKey of
        None \<Rightarrow> Inl (TranslationNotSupported sourceLang targetLang)
      | Some dictionary \<Rightarrow>
          let words = split_ws (toLowerCase text);
              translatedWords = map (dict_word dictionary) words
          in Inr (join (js '' '') translatedWords))"

section \<open>Blobs, Base64 and data URLs\<close>

text \<open>The browser functions that the audio path calls, after their standards: the
  Base64 alphabet and padding of RFC 4648 as \<open>FileReader.readAsDataURL\<close> produces them, and
  the forgiving Base64 decoding of \<open>atob\<close> (ASCII white space removed, one or two trailing
  padding characters removed when the length is a multiple of four, failure on a length
  that leaves remainder one or on a character outside the alphabet, a last incomplete
  group decoded with its spare bits dropped). \<open>atob\<close> returns a string whose code units are
  the decoded bytes.\<close>

record blob =
  bytes :: "byte list"
  mime :: jsstring

definition b64_char :: "nat \<Rightarrow> codeunit" where
  "b64_char i =
     (if i < 26 then 0x41 + i
      else if i < 52 then 0x61 + (i - 26)
      else if i < 62 then 0x30 + (i - 52)
      else if i = 62 then 0x2B
      else 0x2F)"

definition b64_index :: "codeunit \<Rightarrow> nat option" where
  "b64_index c =
     (if 0x41 \<le> c \<and> c \<le> 0x5A then Some (c - 0x41)
      else if 0x61 \<le> c \<and> c \<le> 0x7A then Some (c - 0x61 + 26)
      else if 0x30 \<le> c \<and> c \<le> 0x39 then Some (c - 0x30 + 52)
      else if c = 0x2B then Some 62
      else if c = 0x2F then Some 63
      else None)"

fun b64_sextets :: "nat list \<Rightarrow> nat list" where
  "b64_sextets (a # b # c # rest) =
     [a div 4, (a mod 4) * 16 + b div 16, (b mod 16) * 4 + c div 64, c mod 64] @ b64_sextets rest"
| "b64_sextets [a, b] = [a div 4, (a mod 4) * 16 + b div 16, (b mod 16) * 4]"
| "b64_sextets [a] = [a div 4, (a mod 4) * 16]"
| "b64_sextets [] = []"

definition base64_encode :: "byte list \<Rightarrow> jsstring" where
  "base64_encode bs =
     map b64_char (b64_sextets (map unat bs)) @ replicate ((3 - length bs mod 3) mod 3) 0x3D"

fun sextets_bytes :: "nat list \<Rightarrow> nat list" where
  "sextets_bytes (p # q # r # s # rest) =
     [p * 4 + q div 16, (q mod 16) * 16 + r div 4, (r mod 4) * 64 + s] @ sextets_bytes rest"
| "sextets_bytes [p, q, r] = [p * 4 + q div 16, (q mod 16) * 16 + r div 4]"
| "sextets_bytes [p, q] = [p * 4 + q div 16]"
| "sextets_bytes _ = []"

definition is_ascii_whitespace :: "codeunit \<Rightarrow> bool" where
  "is_ascii_whitespace c \<longleftrightarrow> c \<in> set [0x9, 0xA, 0xC, 0xD, 0x20]"

definition strip_padding :: "jsstring \<Rightarrow> jsstring" where
  "strip_padding d =
     (if length d mod 4 = 0 then
        (case rev d of
           e1 # e2 # r \<Rightarrow> if e1 = 0x3D \<and> e2 = 0x3D then rev r
                          else if e1 = 0x3D then rev (e2 # r) else d
         | [e1] \<Rightarrow> if e1 = 0x3D then [] else d
         | [] \<Rightarrow> d)
      else d)"

definition atob :: "jsstring \<Rightarrow> error + jsstring" where
  "atob data =
     (let d = strip_padding (filter (\<lambda>c. \<not> is_ascii_whitespace c) data) in
      if length d mod 4 = 1 \<or> list_ex (\<lambda>c. b64_index c = None) d then Inl InvalidCharacterError
      else Inr (sextets_bytes (map (\<lambda>c. the (b64_index c)) d)))"

definition readAsDataURL :: "blob \<Rightarrow> jsstring" where
  "readAsDataURL b =
     js ''data:'' @ (if mime b = [] then js ''application/octet-stream'' else mime b)
       @ js '';base64,'' @ base64_encode (bytes b)"

section \<open>utils/audioUtils.js: AudioBufferUtils\<close>

definition blobToBase64 :: "blob \<Rightarrow> jsstring" where
  "blobToBase64 audioBlob = readAsDataURL audioBlob"

text \<open>\<open>atob(base64.split(',')[1])\<close>: without a second piece the argument is \<open>undefined\<close>,
  which \<open>atob\<close> reads as the text \<open>undefined\<close>. \<open>new Uint8Array(byteNumbers)\<close> stores each
  character code modulo 256.\<close>

definition decode_data_url :: "jsstring \<Rightarrow> error + byte list" where
  "decode_data_url base64 =
     (case atob (case split_on 0x2C base64 of
                   p0 # p1 # ps \<Rightarrow> p1
                 | _ \<Rightarrow> js ''undefined'') of
        Inl e \<Rightarrow> Inl e
      | Inr byteCharacters \<Rightarrow> Inr (map of_nat byteCharacters))"

definition base64ToBlob :: "jsstring \<Rightarrow> error + blob" where
  "base64ToBlob base64 =
     (case decode_data_url base64 of
        Inl e \<Rightarrow> Inl e
      | Inr byteArray \<Rightarrow> Inr \<lparr>bytes = byteArray, mime = js ''audio/webm''\<rparr>)"

section \<open>services/webrtc.js\<close>

text \<open>A message is a plain object with string and number fields. \<open>JSON.stringify\<close> with
  \<open>TextEncoder\<close>, and \<open>TextDecoder\<close> with \<open>JSON.parse\<close>, are platform functions that are
  inverse to each other on such objects; they are not modelled, and the datum on the wire
  is represented by the object it encodes. \<open>OtherBytes\<close> stands for received bytes that are
  no JSON text or that encode no object.\<close>

datatype jsvalue = JString jsstring | JNumber int

type_synonym message = "(string \<times> jsvalue) list"

datatype wire = JsonObject message | OtherBytes

text \<open>The SimplePeer object: what \<open>peer.send\<close> has put on the data channel, and whether
  \<open>peer.send\<close> throws (the channel is not open).\<close>

record simplePeer =
  sent :: "wire list"
  sendThrows :: bool

text \<open>The state of a \<open>WebRTCService\<close>. \<open>onAudioData\<close> tells whether the callback is
  registered and \<open>audioDelivered\<close> lists the arguments it has been called with (\<open>None\<close> for
  \<open>undefined\<close>).\<close>

record webRTCService =
  peer :: "simplePeer option"
  isConnected :: bool
  isInitiator :: bool
  onAudioData :: bool
  audioDelivered :: "jsvalue option list"

definition newWebRTCService :: webRTCService where
  "newWebRTCService =
     \<lparr>peer = None, isConnected = False, isInitiator = False, onAudioData = False,
      audioDelivered = []\<rparr>"

datatype audioData = Blob blob | ArrayBuffer "byte list" | OtherData

definition convertAudioToBase64 :: "audioData \<Rightarrow> error + jsstring" where
  "convertAudioToBase64 audio =
     (case audio of
        Blob b \<Rightarrow> Inr (readAsDataURL b)
      | ArrayBuffer buffer \<Rightarrow> Inr (readAsDataURL \<lparr>bytes = buffer, mime = js ''audio/wav''\<rparr>)
      | OtherData \<Rightarrow> Inl UnsupportedAudioDataType)"

definition convertBase64ToAudio :: "jsstring \<Rightarrow> error + blob" where
  "convertBase64ToAudio base64 =
     (case decode_data_url base64 of
        Inl e \<Rightarrow> Inl e
      | Inr byteArray \<Rightarrow> Inr \<lparr>bytes = byteArray, mime = js ''audio/wav''\<rparr>)"

text \<open>\<open>sendMessage\<close>: an exception of \<open>peer.send\<close> is caught and logged.\<close>

definition sendMessage :: "message \<Rightarrow> webRTCService \<Rightarrow> webRTCService" where
  "sendMessage msg s =
     (if \<not> isConnected s \<or> peer s = None then s
      else case peer s of
             None \<Rightarrow> s
           | Some p \<Rightarrow>
               if sendThrows p then s
               else s\<lparr>peer := Some (p\<lparr>sent := sent p @ [JsonObject msg]\<rparr>)\<rparr>)"

definition audioMessage :: "jsstring \<Rightarrow> int \<Rightarrow> message" where
  "audioMessage base64 now =
     [(''type'', JString (js ''audio'')), (''audio'', JString base64), (''timestamp'', JNumber now)]"

definition transcriptMessage :: "jsstring \<Rightarrow> jsstring \<Rightarrow> int \<Rightarrow> message" where
  "transcriptMessage transcript language now =
     [(''type'', JString (js ''transcript'')), (''text'', JString transcript),
      (''language'', JString language), (''timestamp'', JNumber now)]"

definition translationMessage ::
  "jsstring \<Rightarrow> jsstring \<Rightarrow> jsstring \<Rightarrow> jsstring \<Rightarrow> int \<Rightarrow> message" where
  "translationMessage originalText translatedText sourceLang targetLang now =
     [(''type'', JString (js ''translation'')), (''original'', JString originalText),
      (''translated'', JString translatedText), (''sourceLang'', JString sourceLang),
      (''targetLang'', JString targetLang), (''timestamp'', JNumber now)]"

text \<open>\<open>sendAudio\<close>. \<open>now\<close> is the reading of \<open>Date.now()\<close>. The conversion runs in a
  promise; its rejection for an unsupported argument is the error result.\<close>

definition sendAudio :: "audioData \<Rightarrow> int \<Rightarrow> webRTCService \<Rightarrow> error + webRTCService" where
  "sendAudio audio now s =
     (if \<not> isConnected s \<or> peer s = None then Inr s
      else case convertAudioToBase64 audio of
             Inl e \<Rightarrow> Inl e
           | Inr base64 \<Rightarrow> Inr (sendMessage (audioMessage base64 now) s))"

definition sendTranscript :: "jsstring \<Rightarrow> jsstring \<Rightarrow> int \<Rightarrow> webRTCService \<Rightarrow> webRTCService" where
  "sendTranscript transcript language now s =
     (if \<not> isConnected s \<or> peer s = None then s
      else sendMessage (transcriptMessage transcript language now) s)"

definition sendTranslation ::
  "jsstring \<Rightarrow> jsstring \<Rightarrow> jsstring \<Rightarrow> jsstring \<Rightarrow> int \<Rightarrow> webRTCService \<Rightarrow> webRTCService" where
  "sendTranslation originalText translatedText sourceLang targetLang now s =
     (if \<not> isConnected s \<or> peer s = None then s
      else sendMessage (translationMessage originalText translatedText sourceLang targetLang now) s)"

text \<open>\<open>handleData\<close>. Only the \<open>audio\<close> case calls anything; the cases \<open>transcript\<close> and
  \<open>translation\<close> are empty, an unknown type is logged, and an exception while parsing or
  reading \<open>message.type\<close> is caught and logged.\<close>

definition handleData :: "wire \<Rightarrow> webRTCService \<Rightarrow> webRTCService" where
  "handleData data s =
     (case data of
        OtherBytes \<Rightarrow> s
      | JsonObject msg \<Rightarrow>
          (case obj_get msg ''type'' of
             Some (JString t) \<Rightarrow>
               if t = js ''audio'' then
                 (if onAudioData s
                  then s\<lparr>audioDelivered := audioDelivered s @ [obj_get msg ''audio'']\<rparr>
                  else s)
               else if t = js ''transcript'' then s
               else if t = js ''translation'' then s
               else s
           | _ \<Rightarrow> s))"

definition disconnect :: "webRTCService \<Rightarrow> webRTCService" where
  "disconnect s = s\<lparr>peer := None, isConnected := False\<rparr>"

text \<open>A timeline of three events, two of them with the same viseme, used to run the
  scheduler on a concrete input.\<close>

definition demoQueue :: "timedViseme list" where
  "demoQueue =
     [\<lparr>phoneme = js ''a'', viseme = Some (js ''viseme_aa''), duration = 1 / 10,
       startTime = 0, endTime = 1\<rparr>,
      \<lparr>phoneme = js ''a'', viseme = Some (js ''viseme_aa''), duration = 1 / 10,
       startTime = 1, endTime = 2\<rparr>,
      \<lparr>phoneme = js ''b'', viseme = Some (js ''viseme_bb''), duration = 1 / 10,
       startTime = 2, endTime = 3\<rparr>]"

section \<open>Token decoding\<close>

text \<open>C1. The final text of a decode holds no reserved symbol (\<open><sos>\<close>, \<open><eos>\<close>,
  \<open><unk>\<close>), in the STT path and in the MT path. Evaluated on the vocabulary
  \<open><sos>, <eos>, <unk>, hi\<close> and the tokens \<open>2, 3\<close>: the filter of
  \<open>STTService.tokensToText\<close> keeps \<open><unk>\<close>, which reaches the text; the filter of
  \<open>MTService.tokensToText\<close> drops it.\<close>

theorem stt_text_keeps_unk:
  "STT_tokensToText (Some [js ''<sos>'', js ''<eos>'', js ''<unk>'', js ''hi'']) [2, 3]
     = Inr (js ''<unk> hi'')
   \<and> MT_tokensToText (Some [(js ''<sos>'', 0), (js ''<eos>'', 1), (js ''<unk>'', 2), (js ''hi'', 3)])
       [2, 3] = Inr (js ''hi'')
   \<and> stt_keep (Some (js ''<unk>'')) \<and> \<not> mt_keep (Some (js ''<unk>''))"
  by (simp add: STT_tokensToText_def MT_tokensToText_def stt_keep_def mt_keep_def trim_def
      is_space_def js_def)

section \<open>Feature extraction\<close>

lemma foldl_add: "foldl (\<lambda>sum val. sum + f val) a xs = a + sum_list (map f xs)"
  for a :: real
  by (induction xs arbitrary: a) simp_all

text \<open>Whenever the standard deviation of a non-empty spectrogram is zero, every element
  of the result is \<open>0 / 0\<close>.\<close>

lemma normalize_zero_std:
  assumes "spectrogram \<noteq> []" and "sqrt (spectrogram_variance spectrogram) = 0"
  shows "normalize spectrogram = replicate (length spectrogram) NaN"
proof -
  let ?mean = "spectrogram_mean spectrogram"
  have n: "real (length spectrogram) \<noteq> 0" using assms(1) by simp
  from assms(2) n have "foldl (\<lambda>sum val. sum + (val - ?mean) ^ 2) 0 spectrogram = 0"
    by (simp add: spectrogram_variance_def)
  then have "sum_list (map (\<lambda>val. (val - ?mean) ^ 2) spectrogram) = 0"
    using foldl_add [of "\<lambda>val. (val - ?mean) ^ 2" 0 spectrogram] by simp
  then have "\<forall>x\<in>set (map (\<lambda>val. (val - ?mean) ^ 2) spectrogram). x = 0"
    by (subst (asm) sum_list_nonneg_eq_0_iff) auto
  then have eq: "\<forall>i<length spectrogram. spectrogram ! i - ?mean = 0" by simp
  show ?thesis
    unfolding normalize_def Let_def assms(2)
    by (rule nth_equalityI) (use eq in \<open>simp_all add: js_div_def\<close>)
qed

text \<open>C2. A feature matrix with standard deviation 0 is normalized by a defined fallback
  (unchanged, or all zeros) and not by a division by the zero deviation. Evaluated on the
  constant matrix \<open>[1, 1]\<close>: \<open>normalize\<close> divides by the zero deviation and returns NaN
  in every position, neither the input nor zeros. \<open>TTSService.normalizeAudio\<close> guards its
  zero divisor and returns the input.\<close>

theorem normalize_zero_variance:
  "normalize [1, 1] = [NaN, NaN] \<and> normalizeAudio [0, 0] = [0, 0]"
  by (simp add: normalize_def spectrogram_mean_def spectrogram_variance_def normalizeAudio_def
      js_div_def upt_rec)

lemma copy_loop_length:
  "length (foldl (\<lambda>sp mel. sp[b + mel := m ! mel]) sp ks) = length sp"
  by (induction ks arbitrary: sp) simp_all

lemma copy_loop_nth:
  assumes "j < length sp"
  shows "foldl (\<lambda>sp mel. sp[b + mel := m ! mel]) sp [0..<n] ! j =
     (if b \<le> j \<and> j < b + n then m ! (j - b) else sp ! j)"
proof (induction n)
  case 0
  show ?case by auto
next
  case (Suc n)
  let ?sp = "foldl (\<lambda>sp mel. sp[b + mel := m ! mel]) sp [0..<n]"
  have step: "foldl (\<lambda>sp mel. sp[b + mel := m ! mel]) sp [0..<Suc n] = ?sp[b + n := m ! n]"
    by simp
  have len: "length ?sp = length sp" by (rule copy_loop_length)
  show ?case
  proof (cases "j = b + n")
    case True
    then show ?thesis unfolding step using assms by (simp add: len)
  next
    case False
    then have "?sp[b + n := m ! n] ! j = ?sp ! j" by simp
    with Suc.IH False show ?thesis unfolding step by auto
  qed
qed

lemma copyFrame_length: "length (copyFrame m frame sp) = length sp"
  by (simp add: copyFrame_def copy_loop_length)

lemma copyFrame_nth:
  assumes "j < length sp"
  shows "copyFrame m frame sp ! j =
     (if frame * 80 \<le> j \<and> j < frame * 80 + 80 then m ! (j - frame * 80) else sp ! j)"
  unfolding copyFrame_def by (rule copy_loop_nth [OF assms])

lemma frames_length:
  "length (foldl (\<lambda>sp frame. copyFrame (F frame) frame sp) sp0 fs) = length sp0"
  by (induction fs arbitrary: sp0) (simp_all add: copyFrame_length)

lemma frames_nth:
  assumes "j < length sp0"
  shows "foldl (\<lambda>sp frame. copyFrame (F frame) frame sp) sp0 [0..<n] ! j =
     (if j < n * 80 then F (j div 80) ! (j mod 80) else sp0 ! j)"
proof (induction n)
  case 0
  show ?case by simp
next
  case (Suc n)
  let ?sp = "foldl (\<lambda>sp frame. copyFrame (F frame) frame sp) sp0 [0..<n]"
  have step: "foldl (\<lambda>sp frame. copyFrame (F frame) frame sp) sp0 [0..<Suc n]
                = copyFrame (F n) n ?sp"
    by simp
  have len: "j < length ?sp" using assms by (simp add: frames_length)
  show ?case
  proof (cases "n * 80 \<le> j \<and> j < n * 80 + 80")
    case True
    then have "j div 80 = n" by (intro div_nat_eqI) (simp_all add: mult.commute)
    moreover from this have "j mod 80 = j - n * 80"
      using minus_mult_div_eq_mod [of j 80] by simp
    ultimately show ?thesis
      unfolding step using True by (simp add: copyFrame_nth [OF len])
  next
    case False
    then show ?thesis
      unfolding step using Suc.IH by (auto simp: copyFrame_nth [OF len])
  qed
qed

text \<open>C3, amended. For every waveform of at least 240 samples, \<open>computeMelSpectrogram\<close>
  returns a buffer of exactly \<open>numFrames * 80\<close> values with
  \<open>numFrames = floor((length - 400) / 160) + 1\<close>; cell \<open>frame * 80 + mel\<close> holds band
  \<open>mel\<close> of the features of the 400 samples from \<open>frame * 160\<close> on, all of which lie
  within the waveform, and a further frame would not fit (the trailing partial frame is
  dropped).\<close>

theorem mel_spectrogram_shape:
  assumes "240 \<le> length audio"
  shows "\<exists>spec. computeMelSpectrogram audio = Inr spec
     \<and> int (length spec) = ((int (length audio) - 400) div 160 + 1) * 80
     \<and> (\<forall>frame mel. int frame < (int (length audio) - 400) div 160 + 1 \<and> mel < 80 \<longrightarrow>
           frame * 160 + 400 \<le> length audio
         \<and> spec ! (frame * 80 + mel)
             = applyMelFilterbank (computePowerSpectrum (applyWindow
                 (take 400 (drop (frame * 160) audio)))) 80 ! mel)
     \<and> int (length audio) < ((int (length audio) - 400) div 160 + 1) * 160 + 400"
proof -
  define nf where "nf = (int (length audio) - 400) div 160 + 1"
  define F where "F = (\<lambda>frame. applyMelFilterbank (computePowerSpectrum (applyWindow
                 (take 400 (drop (frame * 160) audio)))) 80)"
  define spec where
    "spec = foldl (\<lambda>sp frame. copyFrame (F frame) frame sp) (replicate (nat (nf * 80)) 0)
              [0..<nat nf]"
  have nonneg: "0 \<le> nf" using assms unfolding nf_def by linarith
  have run: "computeMelSpectrogram audio = Inr spec"
    using nonneg unfolding computeMelSpectrogram_def Let_def spec_def F_def nf_def
    by (simp add: not_less)
  have len: "int (length spec) = nf * 80"
    using nonneg unfolding spec_def by (simp add: frames_length)
  have cell: "frame * 160 + 400 \<le> length audio \<and> spec ! (frame * 80 + mel) = F frame ! mel"
    if "int frame < nf" "mel < 80" for frame mel
  proof -
    from that(1) have "int frame * 160 \<le> int (length audio) - 400"
      unfolding nf_def by linarith
    then have fits: "frame * 160 + 400 \<le> length audio" by linarith
    from that have lt: "frame * 80 + mel < nat nf * 80" by linarith
    then have inr: "frame * 80 + mel < length (replicate (nat (nf * 80)) (0::real))"
      using nonneg by (simp add: nat_mult_distrib)
    have "spec ! (frame * 80 + mel) = F ((frame * 80 + mel) div 80) ! ((frame * 80 + mel) mod 80)"
      unfolding spec_def using frames_nth [OF inr, of F "nat nf"] lt by simp
    also have "\<dots> = F frame ! mel" using that(2) by simp
    finally show ?thesis using fits by simp
  qed
  have tail: "int (length audio) < nf * 160 + 400"
    unfolding nf_def by presburger
  show ?thesis
    using run len cell tail unfolding nf_def F_def by blast
qed

theorem mel_spectrogram_shape_witness:
  "240 \<le> length (replicate 560 (0::real))
   \<and> (\<exists>spec. computeMelSpectrogram (replicate 560 0) = Inr spec \<and> length spec = 160)"
proof -
  have h: "240 \<le> length (replicate 560 (0::real))" by simp
  from mel_spectrogram_shape [OF h]
  obtain spec where "computeMelSpectrogram (replicate 560 0) = Inr spec"
    and "int (length spec) = ((int (length (replicate 560 (0::real))) - 400) div 160 + 1) * 80"
    by blast
  then have "computeMelSpectrogram (replicate 560 0) = Inr spec \<and> length spec = 160"
    by simp
  with h show ?thesis by blast
qed

text \<open>C3 as stated, for every waveform, fails on a short one: with fewer than 240 samples
  the frame count of the formula is negative and the allocation of the buffer throws.\<close>

theorem mel_spectrogram_short_input:
  "computeMelSpectrogram [] = Inl RangeError
   \<and> computeMelSpectrogram (replicate 239 0) = Inl RangeError"
  by (simp add: computeMelSpectrogram_def)

lemma resample_length:
  "length (resample audio targetSampleRate)
     = nat \<lfloor>real (length audio) * (real targetSampleRate / 44100)\<rfloor>"
  by (simp add: resample_def Let_def)

text \<open>C4, amended. \<open>resample\<close> takes the source rate to be 44100 Hz: for a positive
  target rate the result has \<open>floor(length * ratio)\<close> samples with
  \<open>ratio = targetSampleRate / 44100\<close>, and sample \<open>i\<close> is the linear interpolation of the
  input samples at \<open>floor(i / ratio)\<close> and at the next index (capped at the last sample),
  blended by the fractional part of \<open>i / ratio\<close>; both indices lie within the input
  (in exact arithmetic).\<close>

theorem resample_interpolates:
  assumes "0 < targetSampleRate" and "i < length (resample audio targetSampleRate)"
  shows "let ratio = real targetSampleRate / 44100;
             originalIndex = real i / ratio;
             index1 = nat \<lfloor>originalIndex\<rfloor>;
             index2 = min (index1 + 1) (length audio - 1);
             fraction = originalIndex - real index1
         in length (resample audio targetSampleRate) = nat \<lfloor>real (length audio) * ratio\<rfloor>
          \<and> index1 < length audio \<and> index2 < length audio
          \<and> 0 \<le> fraction \<and> fraction < 1
          \<and> resample audio targetSampleRate ! i
              = audio ! index1 * (1 - fraction) + audio ! index2 * fraction"
proof -
  define ratio where "ratio = real targetSampleRate / 44100"
  define oi where "oi = real i / ratio"
  have rpos: "0 < ratio" using assms(1) by (simp add: ratio_def)
  have ilt: "i < nat \<lfloor>real (length audio) * ratio\<rfloor>"
    using assms(2) by (simp add: resample_length ratio_def)
  then have "real i < real (length audio) * ratio" by linarith
  then have oi_lt: "oi < real (length audio)"
    using rpos by (simp add: oi_def pos_divide_less_eq)
  have oi_nonneg: "0 \<le> oi" using rpos by (simp add: oi_def)
  then have fl_nonneg: "0 \<le> \<lfloor>oi\<rfloor>" by simp
  have fl_lt: "\<lfloor>oi\<rfloor> < int (length audio)" using oi_lt by linarith
  have i1: "nat \<lfloor>oi\<rfloor> < length audio" using fl_lt fl_nonneg by linarith
  then have i2: "min (nat \<lfloor>oi\<rfloor> + 1) (length audio - 1) < length audio" by linarith
  have i2_eq: "nat (min (\<lfloor>oi\<rfloor> + 1) (int (length audio) - 1))
                 = min (nat \<lfloor>oi\<rfloor> + 1) (length audio - 1)"
    using fl_nonneg i1 by linarith
  have fr_eq: "oi - of_int \<lfloor>oi\<rfloor> = oi - real (nat \<lfloor>oi\<rfloor>)" using fl_nonneg by simp
  have fr: "0 \<le> oi - real (nat \<lfloor>oi\<rfloor>) \<and> oi - real (nat \<lfloor>oi\<rfloor>) < 1"
    using fl_nonneg by linarith
  have "resample audio targetSampleRate ! i
      = audio ! nat \<lfloor>real i / (real targetSampleRate / 44100)\<rfloor>
          * (1 - (real i / (real targetSampleRate / 44100)
                   - of_int \<lfloor>real i / (real targetSampleRate / 44100)\<rfloor>))
        + audio ! nat (min (\<lfloor>real i / (real targetSampleRate / 44100)\<rfloor> + 1)
                        (int (length audio) - 1))
          * (real i / (real targetSampleRate / 44100)
               - of_int \<lfloor>real i / (real targetSampleRate / 44100)\<rfloor>)"
    using ilt unfolding resample_def Let_def ratio_def by (subst nth_map) simp_all
  then have val: "resample audio targetSampleRate ! i
      = audio ! nat \<lfloor>oi\<rfloor> * (1 - (oi - real (nat \<lfloor>oi\<rfloor>)))
        + audio ! min (nat \<lfloor>oi\<rfloor> + 1) (length audio - 1) * (oi - real (nat \<lfloor>oi\<rfloor>))"
    unfolding oi_def [symmetric] ratio_def [symmetric] i2_eq fr_eq .
  have len: "length (resample audio targetSampleRate) = nat \<lfloor>real (length audio) * ratio\<rfloor>"
    unfolding ratio_def by (rule resample_length)
  show ?thesis
    unfolding Let_def ratio_def [symmetric] oi_def [symmetric]
    using len i1 i2 fr val by blast
qed

theorem resample_interpolates_witness:
  "(0::nat) < 16000 \<and> 1 < length (resample [0, 1, 2, 3, 4, 5, 6] 16000)
   \<and> resample [0, 1, 2, 3, 4, 5, 6] 16000 ! 1 = 441 / 160"
proof -
  have p: "(0::nat) < 16000" by simp
  have l: "1 < length (resample [0, 1, 2, 3, 4, 5, 6] 16000)"
    by (simp add: resample_length)
  from resample_interpolates [OF p l]
  have "resample [0, 1, 2, 3, 4, 5, 6] 16000 ! 1
          = [0, 1, 2, 3, 4, 5, 6] ! nat \<lfloor>real 1 / (real 16000 / 44100)\<rfloor>
              * (1 - (real 1 / (real 16000 / 44100)
                       - real (nat \<lfloor>real 1 / (real 16000 / 44100)\<rfloor>)))
            + [0, 1, 2, 3, 4, 5, 6]
                ! min (nat \<lfloor>real 1 / (real 16000 / 44100)\<rfloor> + 1)
                      (length [0, 1, 2, 3, 4, 5, 6 :: real] - 1)
              * (real 1 / (real 16000 / 44100)
                   - real (nat \<lfloor>real 1 / (real 16000 / 44100)\<rfloor>))"
    unfolding Let_def by blast
  also have "\<dots> = 441 / 160" by simp
  finally show ?thesis using p l by blast
qed

text \<open>C4 as stated fails: whether \<open>preprocessAudio\<close> resamples depends on the number of
  samples and on no sample rate, and the ratio is fixed. A capture of 16000 samples is left
  as it is, whatever its rate (resampling it would leave 5804 samples); a capture of 7
  samples is resampled with the ratio \<open>16000 / 44100\<close>, also when its rate is 16 kHz.\<close>

theorem resampling_ignores_source_rate:
  "length (resampled (replicate 16000 0)) = 16000
   \<and> length (resample (replicate 16000 0) 16000) = 5804
   \<and> resampled [0, 1, 2, 3, 4, 5, 6] = [0, 441 / 160]"
proof -
  have "length (resampled (replicate 16000 0)) = 16000"
    by (simp add: resampled_def)
  moreover have "length (resample (replicate 16000 0) 16000) = 5804"
    by (simp add: resample_length)
  moreover have "resampled [0, 1, 2, 3, 4, 5, 6] = [0, 441 / 160]"
    by (simp add: resampled_def resample_def Let_def upt_rec)
  ultimately show ?thesis by blast
qed

section \<open>Dictionary translation\<close>

lemma split_ws_words: "\<forall>w\<in>set (split_ws s). \<forall>c\<in>set w. \<not> is_space c"
proof (induction s rule: split_ws.induct)
  case 1
  show ?case by simp
next
  case (2 c cs)
  show ?case
  proof (cases "is_space c")
    case True
    with 2(1) show ?thesis by simp
  next
    case False
    with 2(2) show ?thesis by (cases "split_ws cs") auto
  qed
qed

lemma split_ws_no_space: "w \<in> set (split_ws s) \<Longrightarrow> c \<in> set w \<Longrightarrow> \<not> is_space c"
  using split_ws_words by blast

text \<open>C10, amended. For a language pair that has a dictionary, \<open>DictionaryMT.translate\<close>
  lowercases the text, splits it on white space, maps each word on its own and joins the
  results with single spaces; there are as many mapped results as words; no word contains
  white space, so a key that contains white space never matches; a word that is not the
  name of an inherited property maps to its own non-empty entry when it has one and to
  itself otherwise.\<close>

theorem dictionary_translate_words:
  assumes "obj_get dicts (sourceLang @ js ''-'' @ targetLang) = Some dictionary"
  shows "let words = split_ws (toLowerCase text) in
           DictionaryMT_translate dicts text sourceLang targetLang
             = Inr (join (js '' '') (map (dict_word dictionary) words))
         \<and> length (map (dict_word dictionary) words) = length words
         \<and> (\<forall>k. (\<exists>c\<in>set k. is_space c) \<longrightarrow> k \<notin> set words)
         \<and> (\<forall>w\<in>set words. obj_get Object_prototype w = None \<longrightarrow>
               dict_word dictionary w
                 = (case obj_get dictionary w of
                      Some v \<Rightarrow> if v = [] then w else v
                    | None \<Rightarrow> w))"
proof -
  have a: "DictionaryMT_translate dicts text sourceLang targetLang
             = Inr (join (js '' '') (map (dict_word dictionary) (split_ws (toLowerCase text))))"
    using assms by (simp add: DictionaryMT_translate_def)
  have b: "\<forall>k. (\<exists>c\<in>set k. is_space c) \<longrightarrow> k \<notin> set (split_ws (toLowerCase text))"
    using split_ws_no_space by blast
  have c: "\<forall>w\<in>set (split_ws (toLowerCase text)). obj_get Object_prototype w = None \<longrightarrow>
               dict_word dictionary w
                 = (case obj_get dictionary w of
                      Some v \<Rightarrow> if v = [] then w else v
                    | None \<Rightarrow> w)"
    by (simp add: dict_word_def split: option.splits)
  show ?thesis
    unfolding Let_def using a b c by simp
qed

lemma en_es_dictionary: "obj_get dictionaries (js ''en'' @ js ''-'' @ js ''es'') = Some dictionary_en_es"
  by (simp add: dictionaries_def js_def)

lemma en_es_words: "dict_word dictionary_en_es (js ''please'') = js ''por favor''"
  "dict_word dictionary_en_es (js ''help'') = js ''help''"
  by (simp_all add: dict_word_def dictionary_en_es_def Object_prototype_def native_function_def js_def)

lemma please_help_words: "split_ws (toLowerCase (js ''Please help'')) = [js ''please'', js ''help'']"
  by (simp add: js_def toLowerCase_def lower_unit_def is_space_def)

theorem dictionary_translate_words_witness:
  "obj_get dictionaries (js ''en'' @ js ''-'' @ js ''es'') = Some dictionary_en_es
   \<and> DictionaryMT_translate dictionaries (js ''Please help'') (js ''en'') (js ''es'')
       = Inr (js ''por favor help'')"
proof -
  from dictionary_translate_words [OF en_es_dictionary, of "js ''Please help''"]
  have "DictionaryMT_translate dictionaries (js ''Please help'') (js ''en'') (js ''es'')
          = Inr (join (js '' '') (map (dict_word dictionary_en_es)
                   (split_ws (toLowerCase (js ''Please help'')))))"
    unfolding Let_def by blast
  then have "DictionaryMT_translate dictionaries (js ''Please help'') (js ''en'') (js ''es'')
          = Inr (js ''por favor help'')"
    by (simp add: en_es_words please_help_words) (simp add: js_def)
  with en_es_dictionary show ?thesis by blast
qed

text \<open>C10 as stated fails in its last part: an entry can hold several words, so the
  translation of the one word \<open>please\<close> has two.\<close>

theorem dictionary_word_count_differs:
  "DictionaryMT_translate dictionaries (js ''please'') (js ''en'') (js ''es'')
     = Inr (js ''por favor'')
   \<and> length (split_ws (toLowerCase (js ''please''))) = 1
   \<and> length (split_ws (js ''por favor'')) = 2"
proof -
  have "obj_get dictionary_en_es (js ''please'') = Some (js ''por favor'')"
    by (simp add: dictionary_en_es_def js_def)
  moreover have "split_ws (toLowerCase (js ''please'')) = [js ''please'']"
    by (simp add: js_def toLowerCase_def lower_unit_def is_space_def)
  moreover have "split_ws (js ''por favor'') = [js ''por'', js ''favor'']"
    by (simp add: js_def is_space_def)
  moreover have "js ''por favor'' \<noteq> []"
    by (simp add: js_def)
  ultimately show ?thesis
    by (simp add: DictionaryMT_translate_def en_es_dictionary dict_word_def)
qed

section \<open>Viseme generation\<close>

text \<open>C9. When the phoneme tokenization of a text is empty, \<open>generateVisemeSequence\<close>
  and \<open>generateLipSyncFromText\<close> return the empty sequence (no error value exists on this
  path), and a caller that hands the empty sequence to \<open>startLipSync\<close> ends in the idle
  state with the rest viseme and an empty queue: no animation.\<close>

theorem zero_phonemes_no_animation:
  assumes "textToPhonemes text language = []"
  shows "generateVisemeSequence text language = []
       \<and> generateLipSyncFromText text language dur = []
       \<and> (let s' = startLipSync (generateLipSyncFromText text language dur) start now s
          in \<not> isPlaying s' \<and> currentViseme s' = viseme_rest \<and> visemeQueue s' = [])"
  using assms
  by (simp add: generateVisemeSequence_def generateLipSyncFromText_def startLipSync_def
      animate_def stopLipSync_def setViseme_def Let_def)

theorem zero_phonemes_no_animation_witness:
  "textToPhonemes [] (js ''en'') = []
   \<and> generateLipSyncFromText [] (js ''en'') 2 = []
   \<and> \<not> isPlaying (startLipSync (generateLipSyncFromText [] (js ''en'') 2) 0 0 newLipSyncService)"
proof -
  have h: "textToPhonemes [] (js ''en'') = []"
    by (simp add: textToPhonemes_def toLowerCase_def js_def)
  from zero_phonemes_no_animation [OF h, of 2 0 0 newLipSyncService]
  have "generateLipSyncFromText [] (js ''en'') 2 = []
      \<and> \<not> isPlaying (startLipSync (generateLipSyncFromText [] (js ''en'') 2) 0 0 newLipSyncService)"
    unfolding Let_def by blast
  with h show ?thesis by blast
qed

lemma binary64_zero: "binary64 0 = 0"
  by (simp add: binary64_def)

lemma binary64_scaled:
  assumes "2 ^ 52 \<le> x * 2 ^ k" and "x * 2 ^ k < 2 ^ 53" and "k \<le> 1074"
  shows "binary64 x = real_of_int (round_half_even (x * 2 ^ k)) / 2 ^ k"
proof -
  have pos: "0 < x"
  proof (rule ccontr)
    assume "\<not> 0 < x"
    then have "x * 2 ^ k \<le> 0" by (simp add: mult_le_0_iff)
    with assms(1) show False by (smt (verit) zero_less_power)
  qed
  have p: "2 powr real_of_int (52 - int k) = 2 ^ 52 / 2 ^ k"
    by (simp add: powr_diff powr_realpow)
  have p': "2 powr real_of_int (52 - int k + 1) = 2 ^ 53 / 2 ^ k"
    by (simp add: powr_diff powr_add powr_realpow)
  have lo: "2 powr real_of_int (52 - int k) \<le> x"
    unfolding p using assms(1) by (simp add: pos_divide_le_eq)
  have hi: "x < 2 powr real_of_int (52 - int k + 1)"
    unfolding p' using assms(2) by (simp add: pos_less_divide_eq)
  have e: "\<lfloor>log 2 x\<rfloor> = 52 - int k"
    using floor_log_eq_powr_iff [of x 2 "52 - int k"] pos lo hi by simp
  have clamp: "max (52 - int k) (- 1022) = 52 - int k" using assms(3) by simp
  have ulp: "2 powr - real k = 1 / 2 ^ k"
    by (simp add: powr_minus powr_realpow inverse_eq_divide)
  show ?thesis
    using pos by (simp add: binary64_def Let_def e clamp ulp)
qed

lemma generateLipSync_length:
  "length (generateLipSyncFromText text language dur) = length (textToPhonemes text language)"
  by (simp add: generateLipSyncFromText_def generateVisemeSequence_def Let_def)

lemma generateLipSync_nth:
  assumes "i < length (textToPhonemes text language)"
  shows "generateLipSyncFromText text language dur ! i =
          \<lparr>phoneme = textToPhonemes text language ! i,
           viseme = phonemeToViseme (textToPhonemes text language ! i),
           duration = binary64 (1 / 10),
           startTime = binary64 (real i
             * binary64 (dur / real (length (textToPhonemes text language)))),
           endTime = binary64 ((real i + 1)
             * binary64 (dur / real (length (textToPhonemes text language))))\<rparr>"
  using assms
  by (simp add: generateLipSyncFromText_def generateVisemeSequence_def Let_def nth_enumerate_eq)

lemma enumerate_index_map: "map (\<lambda>(i, v). g i) (enumerate n xs) = map g [n..<n + length xs]"
proof -
  have "map (\<lambda>(i, v). g i) (enumerate n xs) = map (g \<circ> fst) (enumerate n xs)"
    by (simp add: split_def comp_def)
  also have "\<dots> = map g (map fst (enumerate n xs))"
    by (simp only: map_map)
  also have "\<dots> = map g [n..<n + length xs]"
    by (simp only: map_fst_enumerate)
  finally show ?thesis .
qed

lemma span_sum:
  "(\<Sum>e\<leftarrow>generateLipSyncFromText text language dur. endTime e - startTime e) =
     binary64 (real (length (textToPhonemes text language))
       * binary64 (dur / real (length (textToPhonemes text language))))"
proof -
  let ?n = "length (textToPhonemes text language)"
  let ?d = "binary64 (dur / real ?n)"
  let ?f = "\<lambda>i. binary64 (real i * ?d)"
  have "map (\<lambda>e. endTime e - startTime e) (generateLipSyncFromText text language dur)
        = map (\<lambda>(i, v). ?f (Suc i) - ?f i) (enumerate 0 (generateVisemeSequence text language))"
    by (simp add: generateLipSyncFromText_def generateVisemeSequence_def Let_def
        split_def add.commute)
  also have "\<dots> = map (\<lambda>i. ?f (Suc i) - ?f i) [0..<?n]"
    by (simp add: enumerate_index_map generateVisemeSequence_def)
  finally have "(\<Sum>e\<leftarrow>generateLipSyncFromText text language dur. endTime e - startTime e)
        = (\<Sum>i\<leftarrow>[0..<?n]. ?f (Suc i) - ?f i)"
    by simp
  also have "\<dots> = (\<Sum>i<?n. ?f (Suc i) - ?f i)"
    by (simp add: interv_sum_list_conv_sum_set_nat atLeast0LessThan)
  also have "\<dots> = ?f ?n - ?f 0"
    by (rule sum_lessThan_telescope)
  finally show ?thesis by (simp add: binary64_zero)
qed

text \<open>C5, amended. For a text with \<open>N \<ge> 1\<close> phonemes and a total duration \<open>D\<close>,
  \<open>generateLipSyncFromText\<close> returns exactly \<open>N\<close> events; with \<open>\<delta>\<close> the binary64
  quotient \<open>D / N\<close>, event \<open>i\<close> starts at the binary64 product \<open>i * \<delta>\<close>, ends at the
  binary64 product \<open>(i + 1) * \<delta>\<close> and carries the viseme of phoneme \<open>i\<close>; each event ends
  exactly where the next one starts, the first starts at 0, and the spans add up to the end
  time of the last event, the binary64 product \<open>N * \<delta>\<close>.\<close>

theorem even_viseme_timing:
  assumes "length (textToPhonemes text language) = N" and "1 \<le> N"
  shows "let tv = generateLipSyncFromText text language D; \<delta> = binary64 (D / real N) in
           length tv = N
         \<and> (\<forall>i<N. startTime (tv ! i) = binary64 (real i * \<delta>)
                  \<and> endTime (tv ! i) = binary64 ((real i + 1) * \<delta>)
                  \<and> viseme (tv ! i) = phonemeToViseme (textToPhonemes text language ! i))
         \<and> (\<forall>i. Suc i < N \<longrightarrow> endTime (tv ! i) = startTime (tv ! Suc i))
         \<and> startTime (tv ! 0) = 0
         \<and> endTime (tv ! (N - 1)) = binary64 (real N * \<delta>)
         \<and> (\<Sum>e\<leftarrow>tv. endTime e - startTime e) = endTime (tv ! (N - 1))"
proof -
  let ?tv = "generateLipSyncFromText text language D"
  let ?d = "binary64 (D / real N)"
  have len: "length ?tv = N"
    using assms(1) by (simp add: generateLipSync_length)
  have nth: "\<And>i. i < N \<Longrightarrow>
      startTime (?tv ! i) = binary64 (real i * ?d)
    \<and> endTime (?tv ! i) = binary64 ((real i + 1) * ?d)
    \<and> viseme (?tv ! i) = phonemeToViseme (textToPhonemes text language ! i)"
    using assms(1) by (simp add: generateLipSync_nth)
  have contiguous: "\<And>i. Suc i < N \<Longrightarrow> endTime (?tv ! i) = startTime (?tv ! Suc i)"
  proof -
    fix i assume s: "Suc i < N"
    then have "i < N" by simp
    from nth [OF this] nth [OF s] show "endTime (?tv ! i) = startTime (?tv ! Suc i)"
      by (simp add: add.commute)
  qed
  have first: "startTime (?tv ! 0) = 0"
    using nth [of 0] assms(2) by (simp add: binary64_zero)
  have "N - 1 < N" using assms(2) by simp
  from nth [OF this] assms(2) have final: "endTime (?tv ! (N - 1)) = binary64 (real N * ?d)"
    by (simp add: of_nat_diff)
  have total: "(\<Sum>e\<leftarrow>?tv. endTime e - startTime e) = endTime (?tv ! (N - 1))"
    unfolding final using assms(1) span_sum [of "text" language D] by simp
  show ?thesis
    unfolding Let_def using len nth contiguous first final total by blast
qed

lemma delta_5: "binary64 (1 / 5) = 7205759403792794 / 2 ^ 55"
proof -
  have "binary64 (1 / 5) = real_of_int (round_half_even (1 / 5 * 2 ^ 55)) / 2 ^ 55"
    by (rule binary64_scaled) simp_all
  also have "round_half_even (1 / 5 * 2 ^ 55) = 7205759403792794"
    by (simp add: round_half_even_def Let_def)
  finally show ?thesis by simp
qed

lemma total_5: "binary64 (5 * (7205759403792794 / 2 ^ 55)) = 1"
proof -
  have "binary64 (5 * (7205759403792794 / 2 ^ 55))
          = real_of_int (round_half_even (5 * (7205759403792794 / 2 ^ 55) * 2 ^ 52)) / 2 ^ 52"
    by (rule binary64_scaled) simp_all
  also have "round_half_even (5 * (7205759403792794 / 2 ^ 55) * 2 ^ 52) = 4503599627370496"
    by (simp add: round_half_even_def Let_def)
  finally show ?thesis by simp
qed

theorem even_viseme_timing_witness:
  "length (textToPhonemes (js ''hello'') (js ''en'')) = 5 \<and> (1::nat) \<le> 5
   \<and> length (generateLipSyncFromText (js ''hello'') (js ''en'') 1) = 5
   \<and> startTime (generateLipSyncFromText (js ''hello'') (js ''en'') 1 ! 0) = 0
   \<and> endTime (generateLipSyncFromText (js ''hello'') (js ''en'') 1 ! 4) = 1
   \<and> (\<Sum>e\<leftarrow>generateLipSyncFromText (js ''hello'') (js ''en'') 1. endTime e - startTime e) = 1"
proof -
  have h: "length (textToPhonemes (js ''hello'') (js ''en'')) = 5"
    by (simp add: textToPhonemes_def toLowerCase_def js_def lower_unit_def is_space_def
        englishPhonemes_def truthy_get_def)
  have n: "(1::nat) \<le> 5" by simp
  have four: "(5::nat) - 1 = 4" by simp
  have one: "binary64 (real 5 * binary64 (1 / real 5)) = 1"
    by (simp only: of_nat_numeral delta_5 total_5)
  from even_viseme_timing [OF h n, of 1]
  have "length (generateLipSyncFromText (js ''hello'') (js ''en'') 1) = 5
      \<and> startTime (generateLipSyncFromText (js ''hello'') (js ''en'') 1 ! 0) = 0
      \<and> endTime (generateLipSyncFromText (js ''hello'') (js ''en'') 1 ! 4) = 1
      \<and> (\<Sum>e\<leftarrow>generateLipSyncFromText (js ''hello'') (js ''en'') 1. endTime e - startTime e)
          = endTime (generateLipSyncFromText (js ''hello'') (js ''en'') 1 ! 4)"
    unfolding Let_def four one by blast
  then have "length (generateLipSyncFromText (js ''hello'') (js ''en'') 1) = 5
      \<and> startTime (generateLipSyncFromText (js ''hello'') (js ''en'') 1 ! 0) = 0
      \<and> endTime (generateLipSyncFromText (js ''hello'') (js ''en'') 1 ! 4) = 1
      \<and> (\<Sum>e\<leftarrow>generateLipSyncFromText (js ''hello'') (js ''en'') 1. endTime e - startTime e) = 1"
    by simp
  with h n show ?thesis by blast
qed

lemma delta_49: "binary64 (2 / 49) = 5882252574524729 / 2 ^ 57"
proof -
  have "binary64 (2 / 49) = real_of_int (round_half_even (2 / 49 * 2 ^ 57)) / 2 ^ 57"
    by (rule binary64_scaled) simp_all
  also have "round_half_even (2 / 49 * 2 ^ 57) = 5882252574524729"
    by (simp add: round_half_even_def Let_def)
  finally show ?thesis by simp
qed

lemma total_49: "binary64 (49 * (5882252574524729 / 2 ^ 57)) = 2 - 1 / 2 ^ 52"
proof -
  have "binary64 (49 * (5882252574524729 / 2 ^ 57))
          = real_of_int (round_half_even (49 * (5882252574524729 / 2 ^ 57) * 2 ^ 52)) / 2 ^ 52"
    by (rule binary64_scaled) simp_all
  also have "round_half_even (49 * (5882252574524729 / 2 ^ 57) * 2 ^ 52) = 9007199254740991"
    by (simp add: round_half_even_def Let_def)
  finally show ?thesis by simp
qed

lemma b49_phonemes:
  "length (textToPhonemes (js ''bbbbbbbbbbbbbbbbbbbbbbbbbbbbbbbbbbbbbbbbbbbbbbbbb'') (js ''en'')) = 49"
  by (simp add: textToPhonemes_def toLowerCase_def js_def lower_unit_def is_space_def
      englishPhonemes_def truthy_get_def)

text \<open>C5 as stated fails in its last part: the spans add up to the rounded product
  \<open>N * \<delta>\<close>, which need not be \<open>D\<close>. For a text of 49 phonemes and the duration 2 the
  events end at \<open>2 - 1 / 2 ^ 52\<close> (1.9999999999999998).\<close>

theorem span_sum_rounds_below_duration:
  "length (textToPhonemes (js ''bbbbbbbbbbbbbbbbbbbbbbbbbbbbbbbbbbbbbbbbbbbbbbbbb'') (js ''en'')) = 49
   \<and> (\<Sum>e\<leftarrow>generateLipSyncFromText (js ''bbbbbbbbbbbbbbbbbbbbbbbbbbbbbbbbbbbbbbbbbbbbbbbbb'')
           (js ''en'') 2. endTime e - startTime e) = 2 - 1 / 2 ^ 52
   \<and> (\<Sum>e\<leftarrow>generateLipSyncFromText (js ''bbbbbbbbbbbbbbbbbbbbbbbbbbbbbbbbbbbbbbbbbbbbbbbbb'')
           (js ''en'') 2. endTime e - startTime e) \<noteq> 2"
proof -
  let ?t = "js ''bbbbbbbbbbbbbbbbbbbbbbbbbbbbbbbbbbbbbbbbbbbbbbbbb''"
  have "(\<Sum>e\<leftarrow>generateLipSyncFromText ?t (js ''en'') 2. endTime e - startTime e)
          = binary64 (49 * binary64 (2 / 49))"
    using span_sum [of ?t "js ''en''" 2] by (simp add: b49_phonemes)
  also have "\<dots> = 2 - 1 / 2 ^ 52"
    by (simp only: delta_49 total_49)
  finally have s: "(\<Sum>e\<leftarrow>generateLipSyncFromText ?t (js ''en'') 2. endTime e - startTime e)
          = 2 - 1 / 2 ^ 52" .
  then have "(\<Sum>e\<leftarrow>generateLipSyncFromText ?t (js ''en'') 2. endTime e - startTime e) \<noteq> 2"
    by simp
  with s b49_phonemes show ?thesis by blast
qed

section \<open>Viseme scheduling\<close>

lemma animate_idle: "\<not> isPlaying s \<Longrightarrow> animate t s = s"
  by (simp add: animate_def)

lemma ticks_idle: "\<not> isPlaying s \<Longrightarrow> ticks ts s = s"
  by (induction ts) (simp_all add: ticks_def animate_idle)

lemma ticks_Cons: "ticks (t # ts) s = ticks ts (animate t s)"
  by (simp add: ticks_def)

lemma animate_finished:
  assumes "isPlaying s" and "\<forall>e\<in>set (visemeQueue s). endTime e \<le> t"
  shows "animate t s =
           s\<lparr>visemeQueue := [], isPlaying := False, animationFrame := False,
             currentViseme := viseme_rest,
             notified := (if onVisemeChange s then notified s @ [viseme_rest] else notified s)\<rparr>"
proof -
  have nofind: "find (\<lambda>v. startTime v \<le> t \<and> t < endTime v) (visemeQueue s) = None"
    using assms(2) by (auto simp: find_None_iff)
  have nofilter: "filter (\<lambda>v. t < endTime v) (visemeQueue s) = []"
    using assms(2) by (auto simp: filter_empty_conv)
  show ?thesis
    using assms(1) by (simp add: animate_def nofind nofilter stopLipSync_def setViseme_def)
qed

lemma animate_running:
  assumes "isPlaying s" and "\<exists>e\<in>set (visemeQueue s). t < endTime e"
  shows "animate t s =
           (case find (\<lambda>v. startTime v \<le> t \<and> t < endTime v) (visemeQueue s) of
              None \<Rightarrow> s
            | Some v \<Rightarrow> if viseme v \<noteq> currentViseme s then setViseme (viseme v) s else s)
           \<lparr>visemeQueue := filter (\<lambda>v. t < endTime v) (visemeQueue s), animationFrame := True\<rparr>"
proof -
  have ne: "filter (\<lambda>v. t < endTime v) (visemeQueue s) \<noteq> []"
    using assms(2) by (auto simp: filter_empty_conv)
  show ?thesis
    using assms(1) ne
    by (auto simp: animate_def setViseme_def Let_def split: option.splits)
qed

lemma animate_cases:
  assumes "isPlaying s" and "onVisemeChange s"
  shows "onVisemeChange (animate t s) \<and>
        ((\<not> isPlaying (animate t s) \<and> notified (animate t s) = notified s @ [viseme_rest]
           \<and> currentViseme (animate t s) = viseme_rest)
       \<or> (isPlaying (animate t s) \<and> notified (animate t s) = notified s
           \<and> currentViseme (animate t s) = currentViseme s)
       \<or> (isPlaying (animate t s) \<and> currentViseme (animate t s) \<noteq> currentViseme s
           \<and> notified (animate t s) = notified s @ [currentViseme (animate t s)]))"
proof (cases "\<forall>e\<in>set (visemeQueue s). endTime e \<le> t")
  case True
  from animate_finished [OF assms(1) True] assms(2) show ?thesis by simp
next
  case False
  then have "\<exists>e\<in>set (visemeQueue s). t < endTime e" by (auto simp: not_le)
  from animate_running [OF assms(1) this] assms show ?thesis
    by (auto simp: setViseme_def split: option.splits)
qed

lemma ticks_log:
  assumes "isPlaying s" and "onVisemeChange s"
  shows "\<exists>es. notified (ticks ts s) = notified s @ es
       \<and> (isPlaying (ticks ts s) \<longrightarrow>
            distinct_adj (currentViseme s # es)
          \<and> currentViseme (ticks ts s) = last (currentViseme s # es))
       \<and> (\<not> isPlaying (ticks ts s) \<longrightarrow>
            (\<exists>es'. es = es' @ [viseme_rest] \<and> distinct_adj (currentViseme s # es'))
          \<and> currentViseme (ticks ts s) = viseme_rest)"
  using assms
proof (induction ts arbitrary: s)
  case Nil
  then show ?case by (simp add: ticks_def)
next
  case (Cons t ts)
  let ?s1 = "animate t s"
  from animate_cases [OF Cons.prems, of t] have cb: "onVisemeChange ?s1" by blast
  from animate_cases [OF Cons.prems, of t] consider
      (stop) "\<not> isPlaying ?s1" "notified ?s1 = notified s @ [viseme_rest]"
             "currentViseme ?s1 = viseme_rest"
    | (same) "isPlaying ?s1" "notified ?s1 = notified s" "currentViseme ?s1 = currentViseme s"
    | (change) "isPlaying ?s1" "currentViseme ?s1 \<noteq> currentViseme s"
               "notified ?s1 = notified s @ [currentViseme ?s1]"
    by blast
  then show ?case
  proof cases
    case stop
    then have "ticks (t # ts) s = ?s1" by (simp add: ticks_Cons ticks_idle)
    with stop show ?thesis by (intro exI [of _ "[viseme_rest]"]) simp
  next
    case same
    from Cons.IH [OF same(1) cb] obtain es where
      es: "notified (ticks ts ?s1) = notified ?s1 @ es"
          "isPlaying (ticks ts ?s1) \<longrightarrow>
            distinct_adj (currentViseme ?s1 # es)
          \<and> currentViseme (ticks ts ?s1) = last (currentViseme ?s1 # es)"
          "\<not> isPlaying (ticks ts ?s1) \<longrightarrow>
            (\<exists>es'. es = es' @ [viseme_rest] \<and> distinct_adj (currentViseme ?s1 # es'))
          \<and> currentViseme (ticks ts ?s1) = viseme_rest"
      by blast
    show ?thesis
      using es same by (intro exI [of _ es]) (simp add: ticks_Cons)
  next
    case change
    from Cons.IH [OF change(1) cb] obtain es where
      es: "notified (ticks ts ?s1) = notified ?s1 @ es"
          "isPlaying (ticks ts ?s1) \<longrightarrow>
            distinct_adj (currentViseme ?s1 # es)
          \<and> currentViseme (ticks ts ?s1) = last (currentViseme ?s1 # es)"
          "\<not> isPlaying (ticks ts ?s1) \<longrightarrow>
            (\<exists>es'. es = es' @ [viseme_rest] \<and> distinct_adj (currentViseme ?s1 # es'))
          \<and> currentViseme (ticks ts ?s1) = viseme_rest"
      by blast
    have a: "notified (ticks (t # ts) s) = notified s @ currentViseme ?s1 # es"
      using es(1) change(3) by (simp add: ticks_Cons)
    have b: "distinct_adj (currentViseme s # currentViseme ?s1 # es)
           \<and> currentViseme (ticks (t # ts) s) = last (currentViseme s # currentViseme ?s1 # es)"
      if "isPlaying (ticks (t # ts) s)"
      using that es(2) change(2) by (auto simp: ticks_Cons)
    have c: "(\<exists>es'. currentViseme ?s1 # es = es' @ [viseme_rest]
                 \<and> distinct_adj (currentViseme s # es'))
           \<and> currentViseme (ticks (t # ts) s) = viseme_rest"
      if "\<not> isPlaying (ticks (t # ts) s)"
    proof -
      from that have p: "\<not> isPlaying (ticks ts ?s1)" by (simp add: ticks_Cons)
      with es(3) obtain es' where
        e': "es = es' @ [viseme_rest]" "distinct_adj (currentViseme ?s1 # es')" by blast
      have "currentViseme ?s1 # es = (currentViseme ?s1 # es') @ [viseme_rest]
                 \<and> distinct_adj (currentViseme s # currentViseme ?s1 # es')"
        using e' change(2) by auto
      then have "\<exists>es'. currentViseme ?s1 # es = es' @ [viseme_rest]
                 \<and> distinct_adj (currentViseme s # es')" by (rule exI)
      moreover from p es(3) have "currentViseme (ticks (t # ts) s) = viseme_rest"
        by (simp add: ticks_Cons)
      ultimately show ?thesis by blast
    qed
    show ?thesis
      by (rule exI [of _ "currentViseme ?s1 # es"]) (use a b c in blast)
  qed
qed


text \<open>C6. Scheduling, with a callback registered and the scheduler playing. One tick at
  clock time \<open>t\<close>: when every queued event has \<open>endTime \<le> t\<close> the scheduler leaves the
  playing state and notifies the rest viseme; otherwise it stays playing and either notifies
  nothing, or notifies the viseme of the first queued event whose interval contains \<open>t\<close>,
  and that viseme differs from the current (last set) viseme. Any sequence of ticks: while
  playing, no two consecutive notifications carry the same viseme, the first differs from
  the viseme current at the start, and the current viseme is the last one notified; a run
  that has left the playing state ended with the forced rest notification.\<close>

theorem scheduler_notifications:
  assumes "isPlaying s" and "onVisemeChange s"
  shows "((\<forall>e\<in>set (visemeQueue s). endTime e \<le> t) \<longrightarrow>
            \<not> isPlaying (animate t s)
          \<and> notified (animate t s) = notified s @ [viseme_rest]
          \<and> currentViseme (animate t s) = viseme_rest)
       \<and> ((\<exists>e\<in>set (visemeQueue s). t < endTime e) \<longrightarrow>
            isPlaying (animate t s)
          \<and> (notified (animate t s) = notified s
               \<and> currentViseme (animate t s) = currentViseme s
             \<or> (\<exists>v. find (\<lambda>v. startTime v \<le> t \<and> t < endTime v) (visemeQueue s) = Some v
                    \<and> viseme v \<noteq> currentViseme s
                    \<and> notified (animate t s) = notified s @ [viseme v]
                    \<and> currentViseme (animate t s) = viseme v)))
       \<and> (\<exists>es. notified (ticks ts s) = notified s @ es
             \<and> (isPlaying (ticks ts s) \<longrightarrow>
                  distinct_adj (currentViseme s # es)
                \<and> currentViseme (ticks ts s) = last (currentViseme s # es))
             \<and> (\<not> isPlaying (ticks ts s) \<longrightarrow>
                  (\<exists>es'. es = es' @ [viseme_rest] \<and> distinct_adj (currentViseme s # es'))
                \<and> currentViseme (ticks ts s) = viseme_rest))"
proof (intro conjI impI)
  assume "\<forall>e\<in>set (visemeQueue s). endTime e \<le> t"
  from animate_finished [OF assms(1) this] assms(2)
  show "\<not> isPlaying (animate t s)"
    and "notified (animate t s) = notified s @ [viseme_rest]"
    and "currentViseme (animate t s) = viseme_rest"
    by simp_all
next
  assume "\<exists>e\<in>set (visemeQueue s). t < endTime e"
  from animate_running [OF assms(1) this] assms
  show "isPlaying (animate t s)"
    and "notified (animate t s) = notified s
               \<and> currentViseme (animate t s) = currentViseme s
             \<or> (\<exists>v. find (\<lambda>v. startTime v \<le> t \<and> t < endTime v) (visemeQueue s) = Some v
                    \<and> viseme v \<noteq> currentViseme s
                    \<and> notified (animate t s) = notified s @ [viseme v]
                    \<and> currentViseme (animate t s) = viseme v)"
    by (auto simp: setViseme_def split: option.splits)
next
  show "\<exists>es. notified (ticks ts s) = notified s @ es
             \<and> (isPlaying (ticks ts s) \<longrightarrow>
                  distinct_adj (currentViseme s # es)
                \<and> currentViseme (ticks ts s) = last (currentViseme s # es))
             \<and> (\<not> isPlaying (ticks ts s) \<longrightarrow>
                  (\<exists>es'. es = es' @ [viseme_rest] \<and> distinct_adj (currentViseme s # es'))
                \<and> currentViseme (ticks ts s) = viseme_rest)"
    by (rule ticks_log [OF assms])
qed

lemma demo_run:
  "notified (ticks [1/2, 3/2, 5/2, 7/2]
      (newLipSyncService\<lparr>visemeQueue := demoQueue, isPlaying := True, onVisemeChange := True\<rparr>))
   = [Some (js ''viseme_aa''), Some (js ''viseme_bb''), viseme_rest]"
  by (simp add: ticks_def animate_def demoQueue_def newLipSyncService_def setViseme_def
      stopLipSync_def viseme_rest_def js_def)

theorem scheduler_notifications_witness:
  "isPlaying (newLipSyncService\<lparr>visemeQueue := demoQueue, isPlaying := True, onVisemeChange := True\<rparr>)
 \<and> onVisemeChange (newLipSyncService\<lparr>visemeQueue := demoQueue, isPlaying := True, onVisemeChange := True\<rparr>)
 \<and> \<not> isPlaying (animate 3 (newLipSyncService\<lparr>visemeQueue := demoQueue, isPlaying := True, onVisemeChange := True\<rparr>))
 \<and> notified (animate 3 (newLipSyncService\<lparr>visemeQueue := demoQueue, isPlaying := True, onVisemeChange := True\<rparr>))
      = [viseme_rest]
 \<and> isPlaying (animate (1 / 2) (newLipSyncService\<lparr>visemeQueue := demoQueue, isPlaying := True, onVisemeChange := True\<rparr>))
 \<and> notified (ticks [1 / 2, 3 / 2, 5 / 2, 7 / 2]
      (newLipSyncService\<lparr>visemeQueue := demoQueue, isPlaying := True, onVisemeChange := True\<rparr>))
      = [Some (js ''viseme_aa''), Some (js ''viseme_bb''), viseme_rest]"
proof -
  let ?s = "newLipSyncService\<lparr>visemeQueue := demoQueue, isPlaying := True, onVisemeChange := True\<rparr>"
  have p: "isPlaying ?s" and c: "onVisemeChange ?s" by simp_all
  have q: "\<forall>e\<in>set (visemeQueue ?s). endTime e \<le> 3" by (simp add: demoQueue_def)
  have r: "\<exists>e\<in>set (visemeQueue ?s). 1 / 2 < endTime e" by (simp add: demoQueue_def)
  have n: "notified ?s = []" by (simp add: newLipSyncService_def)
  from scheduler_notifications [OF p c, of 3 "[]"] q n
  have ended: "\<not> isPlaying (animate 3 ?s) \<and> notified (animate 3 ?s) = [viseme_rest]"
    by simp
  from scheduler_notifications [OF p c, of "1 / 2" "[]"] r
  have running: "isPlaying (animate (1 / 2) ?s)"
    by blast
  from p c ended running demo_run show ?thesis by blast
qed

section \<open>Peer messaging\<close>

text \<open>C7. While the channel is not connected (the \<open>isConnected\<close> flag is off, or there is
  no peer object), each send function returns without raising an error and returns the
  service unchanged: nothing is handed to the transport, the connection state stays as it
  is, and the message is kept nowhere.\<close>

theorem send_while_not_connected:
  assumes "\<not> isConnected s \<or> peer s = None"
  shows "sendMessage msg s = s
       \<and> sendAudio audio now s = Inr s
       \<and> sendTranscript transcript language now s = s
       \<and> sendTranslation originalText translatedText sourceLang targetLang now s = s"
  using assms
  by (auto simp: sendMessage_def sendAudio_def sendTranscript_def sendTranslation_def)

theorem send_while_not_connected_witness:
  "\<not> isConnected newWebRTCService \<and> peer newWebRTCService = None
   \<and> sendAudio (ArrayBuffer [0x00, 0xFF, 0x10]) 0 newWebRTCService = Inr newWebRTCService
   \<and> sendTranscript (js ''hi'') (js ''en'') 0 newWebRTCService = newWebRTCService
   \<and> sendAudio (ArrayBuffer [0x00, 0xFF, 0x10]) 0
         (disconnect (newWebRTCService\<lparr>peer := Some \<lparr>sent = [], sendThrows = False\<rparr>,
                                         isConnected := True\<rparr>))
       = Inr (disconnect (newWebRTCService\<lparr>peer := Some \<lparr>sent = [], sendThrows = False\<rparr>,
                                              isConnected := True\<rparr>))"
proof -
  let ?d = "disconnect (newWebRTCService\<lparr>peer := Some \<lparr>sent = [], sendThrows = False\<rparr>,
                                          isConnected := True\<rparr>)"
  have c: "\<not> isConnected newWebRTCService" and p: "peer newWebRTCService = None"
    by (simp_all add: newWebRTCService_def)
  then have h: "\<not> isConnected newWebRTCService \<or> peer newWebRTCService = None"
    by blast
  have h': "\<not> isConnected ?d \<or> peer ?d = None"
    by (simp add: disconnect_def)
  from send_while_not_connected [OF h] send_while_not_connected [OF h'] c p
  show ?thesis by blast
qed

lemma sextet_div_hi: "b < 256 \<Longrightarrow> ((a mod 4) * 16 + b div 16) div 16 = a mod 4" for a b :: nat
  by (simp add: less_mult_imp_div_less)
lemma sextet_mod_hi: "b < 256 \<Longrightarrow> ((a mod 4) * 16 + b div 16) mod 16 = b div 16" for a b :: nat
  by (simp add: less_mult_imp_div_less)
lemma sextet_div_lo: "c < 256 \<Longrightarrow> ((b mod 16) * 4 + c div 64) div 4 = b mod 16" for b c :: nat
  by (simp add: less_mult_imp_div_less)
lemma sextet_mod_lo: "c < 256 \<Longrightarrow> ((b mod 16) * 4 + c div 64) mod 4 = c div 64" for b c :: nat
  by (simp add: less_mult_imp_div_less)
lemma sextet_bound_1: "a < 256 \<Longrightarrow> a div 4 < 64" for a :: nat
  by (simp add: less_mult_imp_div_less)
lemma sextet_bound_2: "b < 256 \<Longrightarrow> (a mod 4) * 16 + b div 16 < 64" for a b :: nat
proof -
  assume "b < 256"
  then have "b div 16 < 16" by (simp add: less_mult_imp_div_less)
  moreover have "a mod 4 < 4" by simp
  ultimately show ?thesis by linarith
qed
lemma sextet_bound_3: "c < 256 \<Longrightarrow> (b mod 16) * 4 + c div 64 < 64" for b c :: nat
proof -
  assume "c < 256"
  then have "c div 64 < 4" by (simp add: less_mult_imp_div_less)
  moreover have "b mod 16 < 16" by simp
  ultimately show ?thesis by linarith
qed

lemma b64_index_char: "i < 64 \<Longrightarrow> b64_index (b64_char i) = Some i"
  by (auto simp: b64_index_def b64_char_def)

lemma b64_char_not_pad: "i < 64 \<Longrightarrow> b64_char i \<noteq> 0x3D"
  by (auto simp: b64_char_def)

lemma b64_char_not_ws: "i < 64 \<Longrightarrow> \<not> is_ascii_whitespace (b64_char i)"
  by (auto simp: b64_char_def is_ascii_whitespace_def)

lemma b64_char_not_comma: "i < 64 \<Longrightarrow> b64_char i \<noteq> 0x2C"
  by (auto simp: b64_char_def)

lemma b64_sextets_bound: "\<forall>x\<in>set xs. x < 256 \<Longrightarrow> \<forall>s\<in>set (b64_sextets xs). s < 64"
proof (induction xs rule: b64_sextets.induct)
  case (1 a b c rest)
  then have "a < 256" "b < 256" "c < 256" by simp_all
  then have "a div 4 < 64" "(a mod 4) * 16 + b div 16 < 64"
    "(b mod 16) * 4 + c div 64 < 64" "c mod 64 < 64"
    by (simp_all add: sextet_bound_1 sextet_bound_2 sextet_bound_3)
  with 1 show ?case by simp
next
  case (2 a b)
  then have "a < 256" "b < 256" by simp_all
  then have "a div 4 < 64" "(a mod 4) * 16 + b div 16 < 64" "(b mod 16) * 4 < 64"
    by (simp_all add: sextet_bound_1 sextet_bound_2)
  then show ?case by simp
next
  case (3 a)
  then have "a < 256" by simp
  then have "a div 4 < 64" "(a mod 4) * 16 < 64" by (simp_all add: sextet_bound_1)
  then show ?case by simp
next
  case 4
  show ?case by simp
qed

lemma sextets_bytes_inverse: "\<forall>x\<in>set xs. x < 256 \<Longrightarrow> sextets_bytes (b64_sextets xs) = xs"
proof (induction xs rule: b64_sextets.induct)
  case (1 a b c rest)
  then have "a < 256" "b < 256" "c < 256" by simp_all
  then have "a div 4 * 4 + ((a mod 4) * 16 + b div 16) div 16 = a"
    "(((a mod 4) * 16 + b div 16) mod 16) * 16 + ((b mod 16) * 4 + c div 64) div 4 = b"
    "(((b mod 16) * 4 + c div 64) mod 4) * 64 + c mod 64 = c"
    by (simp_all add: sextet_div_hi sextet_mod_hi sextet_div_lo sextet_mod_lo)
  with 1 show ?case by simp
next
  case (2 a b)
  then have "a < 256" "b < 256" by simp_all
  then have "a div 4 * 4 + ((a mod 4) * 16 + b div 16) div 16 = a"
    "(((a mod 4) * 16 + b div 16) mod 16) * 16 + ((b mod 16) * 4) div 4 = b"
    by (simp_all add: sextet_div_hi sextet_mod_hi)
  then show ?case by simp
next
  case (3 a)
  have "a div 4 * 4 + ((a mod 4) * 16) div 16 = a" by simp
  then show ?case by simp
next
  case 4
  show ?case by simp
qed

lemma b64_sextets_length_mod:
  "length (b64_sextets xs) mod 4 = (if length xs mod 3 = 0 then 0 else length xs mod 3 + 1)"
proof (induction xs rule: b64_sextets.induct)
  case (1 a b c rest)
  have "length (a # b # c # rest) mod 3 = length rest mod 3" by simp
  moreover have "length (b64_sextets (a # b # c # rest)) mod 4 = length (b64_sextets rest) mod 4"
    by simp
  ultimately show ?case using 1 by presburger
qed simp_all

lemma strip_padding_none: "0x3D \<notin> set d \<Longrightarrow> strip_padding d = d"
  by (cases "rev d" rule: sextets_bytes.cases)
     (auto simp: strip_padding_def split: list.splits dest: arg_cong [where f = set])

lemma strip_padding_two:
  assumes "length S mod 4 = 2"
  shows "strip_padding (S @ [0x3D, 0x3D]) = S"
proof -
  have "length (S @ [0x3D, 0x3D]) mod 4 = 0" using assms by (simp add: mod_Suc)
  then show ?thesis by (simp add: strip_padding_def)
qed

lemma strip_padding_one:
  assumes "length S mod 4 = 3" and "0x3D \<notin> set S"
  shows "strip_padding (S @ [0x3D]) = S"
proof -
  have len: "length (S @ [0x3D]) mod 4 = 0" using assms(1) by (simp add: mod_Suc)
  from assms(1) have "S \<noteq> []" by auto
  then obtain r e where S: "S = r @ [e]" by (cases S rule: rev_cases) auto
  with assms(2) have "e \<noteq> 0x3D" by auto
  then show ?thesis using len unfolding S by (simp add: strip_padding_def)
qed

lemma byte_bound: "unat b < 256" for b :: byte
  using unsigned_less [of b] by simp

lemma atob_encode: "atob (base64_encode bs) = Inr (map unat bs)"
proof -
  let ?xs = "map unat bs"
  let ?S = "map b64_char (b64_sextets ?xs)"
  let ?pad = "(3 - length bs mod 3) mod 3"
  have small: "\<forall>x\<in>set ?xs. x < 256"
    using byte_bound by auto
  then have sx: "\<forall>s\<in>set (b64_sextets ?xs). s < 64" by (rule b64_sextets_bound)
  then have nopad: "0x3D \<notin> set ?S" using b64_char_not_pad by auto
  have nows: "filter (\<lambda>c. \<not> is_ascii_whitespace c) (base64_encode bs) = base64_encode bs"
    using sx b64_char_not_ws by (auto simp: base64_encode_def is_ascii_whitespace_def)
  have lenS: "length ?S mod 4 = (if length bs mod 3 = 0 then 0 else length bs mod 3 + 1)"
    using b64_sextets_length_mod [of ?xs] by simp
  have m3: "length bs mod 3 = 0 \<or> length bs mod 3 = 1 \<or> length bs mod 3 = 2" by presburger
  have strip: "strip_padding (base64_encode bs) = ?S"
    using m3
  proof (elim disjE)
    assume "length bs mod 3 = 0"
    then show ?thesis using nopad by (simp add: base64_encode_def strip_padding_none)
  next
    assume a: "length bs mod 3 = 1"
    then have "length ?S mod 4 = 2" using lenS by simp
    from strip_padding_two [OF this] a show ?thesis
      by (simp add: base64_encode_def numeral_2_eq_2)
  next
    assume a: "length bs mod 3 = 2"
    then have "length ?S mod 4 = 3" using lenS by simp
    from strip_padding_one [OF this nopad] a show ?thesis
      by (simp add: base64_encode_def)
  qed
  have not1: "length ?S mod 4 \<noteq> 1" using lenS m3 by auto
  have valid: "\<not> list_ex (\<lambda>c. b64_index c = None) ?S"
    using sx by (auto simp: list_ex_iff b64_index_char)
  have undo: "map (\<lambda>c. the (b64_index c)) ?S = b64_sextets ?xs"
    using sx by (simp add: b64_index_char map_idI)
  show ?thesis
    unfolding atob_def Let_def nows strip
    using not1 valid undo sextets_bytes_inverse [OF small] by simp
qed

lemma base64_encode_no_comma: "0x2C \<notin> set (base64_encode bs)"
proof -
  have "\<forall>x\<in>set (map unat bs). x < 256"
    using byte_bound by auto
  then have "\<forall>s\<in>set (b64_sextets (map unat bs)). s < 64" by (rule b64_sextets_bound)
  then show ?thesis using b64_char_not_comma by (auto simp: base64_encode_def)
qed

lemma split_on_none: "sep \<notin> set xs \<Longrightarrow> split_on sep xs = [xs]"
  by (induction xs) auto

lemma split_on_first: "sep \<notin> set xs \<Longrightarrow> split_on sep (xs @ sep # ys) = xs # split_on sep ys"
  by (induction xs) auto

lemma decode_data_url_read:
  assumes "0x2C \<notin> set (mime b)"
  shows "decode_data_url (readAsDataURL b) = Inr (bytes b)"
proof -
  let ?t = "if mime b = [] then js ''application/octet-stream'' else mime b"
  let ?head = "js ''data:'' @ ?t @ js '';base64''"
  have url: "readAsDataURL b = ?head @ 0x2C # base64_encode (bytes b)"
    by (simp add: readAsDataURL_def js_def)
  have head: "0x2C \<notin> set ?head" using assms by (simp add: js_def)
  have "split_on 0x2C (readAsDataURL b) = [?head, base64_encode (bytes b)]"
    unfolding url using split_on_first [OF head] split_on_none [OF base64_encode_no_comma]
    by simp
  then show ?thesis
    by (simp add: decode_data_url_def atob_encode comp_def)
qed

lemma handleData_audio:
  "onAudioData rx \<Longrightarrow>
   handleData (JsonObject (audioMessage url now)) rx
     = rx\<lparr>audioDelivered := audioDelivered rx @ [Some (JString url)]\<rparr>"
  by (simp add: handleData_def audioMessage_def)

lemma handleData_transcript:
  "handleData (JsonObject (transcriptMessage transcript language now)) rx = rx"
  by (simp add: handleData_def transcriptMessage_def js_def)

lemma handleData_translation:
  "handleData (JsonObject (translationMessage originalText translatedText sourceLang targetLang now)) rx
     = rx"
  by (simp add: handleData_def translationMessage_def js_def)

text \<open>C8, amended. An audio envelope whose payload is an array buffer, sent over a
  connected channel, reaches the wire as the message \<open>{type, audio, timestamp}\<close> whose
  \<open>audio\<close> field is the data URL of the payload; \<open>handleData\<close> on that datum hands exactly
  this data URL to \<open>onAudioData\<close>, and \<open>convertBase64ToAudio\<close> recovers from it exactly the
  bytes of the payload, in a blob of type \<open>audio/wav\<close>. A payload that is a blob reaches
  the wire and the callback in the same way, as the data URL of the blob; when the type of
  the blob holds no comma, both decoders recover the bytes of the blob from that data URL
  and set their own fixed type. Transcript and translation envelopes reach the wire as
  their messages, and \<open>handleData\<close> discards them: the receiving service is unchanged.\<close>

theorem audio_payload_round_trip:
  assumes "isConnected tx" and "peer tx = Some p" and "\<not> sendThrows p" and "onAudioData rx"
  shows "let url = readAsDataURL \<lparr>bytes = payload, mime = js ''audio/wav''\<rparr> in
           sendAudio (ArrayBuffer payload) now tx
             = Inr (tx\<lparr>peer := Some (p\<lparr>sent := sent p @ [JsonObject (audioMessage url now)]\<rparr>)\<rparr>)
         \<and> handleData (JsonObject (audioMessage url now)) rx
             = rx\<lparr>audioDelivered := audioDelivered rx @ [Some (JString url)]\<rparr>
         \<and> convertBase64ToAudio url = Inr \<lparr>bytes = payload, mime = js ''audio/wav''\<rparr>
         \<and> sendAudio (Blob b) now tx
             = Inr (tx\<lparr>peer := Some (p\<lparr>sent := sent p
                   @ [JsonObject (audioMessage (blobToBase64 b) now)]\<rparr>)\<rparr>)
         \<and> handleData (JsonObject (audioMessage (blobToBase64 b) now)) rx
             = rx\<lparr>audioDelivered := audioDelivered rx @ [Some (JString (blobToBase64 b))]\<rparr>
         \<and> (0x2C \<notin> set (mime b) \<longrightarrow>
               convertBase64ToAudio (blobToBase64 b) = Inr (b\<lparr>mime := js ''audio/wav''\<rparr>)
             \<and> base64ToBlob (blobToBase64 b) = Inr (b\<lparr>mime := js ''audio/webm''\<rparr>))
         \<and> sendTranscript transcript language now tx
             = tx\<lparr>peer := Some (p\<lparr>sent := sent p
                   @ [JsonObject (transcriptMessage transcript language now)]\<rparr>)\<rparr>
         \<and> handleData (JsonObject (transcriptMessage transcript language now)) rx = rx
         \<and> sendTranslation originalText translatedText sourceLang targetLang now tx
             = tx\<lparr>peer := Some (p\<lparr>sent := sent p
                   @ [JsonObject (translationMessage originalText translatedText sourceLang
                                   targetLang now)]\<rparr>)\<rparr>
         \<and> handleData (JsonObject (translationMessage originalText translatedText sourceLang
                                    targetLang now)) rx = rx"
proof -
  let ?url = "readAsDataURL \<lparr>bytes = payload, mime = js ''audio/wav''\<rparr>"
  have nocomma: "0x2C \<notin> set (mime \<lparr>bytes = payload, mime = js ''audio/wav''\<rparr>)"
    by (simp add: js_def)
  have send_a: "sendAudio (ArrayBuffer payload) now tx
      = Inr (tx\<lparr>peer := Some (p\<lparr>sent := sent p @ [JsonObject (audioMessage ?url now)]\<rparr>)\<rparr>)"
    using assms(1-3) by (simp add: sendAudio_def convertAudioToBase64_def sendMessage_def)
  have recv_a: "handleData (JsonObject (audioMessage ?url now)) rx
      = rx\<lparr>audioDelivered := audioDelivered rx @ [Some (JString ?url)]\<rparr>"
    using assms(4) by (rule handleData_audio)
  have dec_a: "convertBase64ToAudio ?url = Inr \<lparr>bytes = payload, mime = js ''audio/wav''\<rparr>"
    using decode_data_url_read [OF nocomma] by (simp add: convertBase64ToAudio_def)
  have send_b: "sendAudio (Blob b) now tx
      = Inr (tx\<lparr>peer := Some (p\<lparr>sent := sent p
            @ [JsonObject (audioMessage (blobToBase64 b) now)]\<rparr>)\<rparr>)"
    using assms(1-3)
    by (simp add: sendAudio_def convertAudioToBase64_def sendMessage_def blobToBase64_def)
  have recv_b: "handleData (JsonObject (audioMessage (blobToBase64 b) now)) rx
      = rx\<lparr>audioDelivered := audioDelivered rx @ [Some (JString (blobToBase64 b))]\<rparr>"
    using assms(4) by (rule handleData_audio)
  have send_t: "sendTranscript transcript language now tx
      = tx\<lparr>peer := Some (p\<lparr>sent := sent p
            @ [JsonObject (transcriptMessage transcript language now)]\<rparr>)\<rparr>"
    using assms(1-3) by (simp add: sendTranscript_def sendMessage_def)
  have send_l: "sendTranslation originalText translatedText sourceLang targetLang now tx
      = tx\<lparr>peer := Some (p\<lparr>sent := sent p
            @ [JsonObject (translationMessage originalText translatedText sourceLang
                            targetLang now)]\<rparr>)\<rparr>"
    using assms(1-3) by (simp add: sendTranslation_def sendMessage_def)
  have blobs: "convertBase64ToAudio (blobToBase64 b) = Inr (b\<lparr>mime := js ''audio/wav''\<rparr>)
             \<and> base64ToBlob (blobToBase64 b) = Inr (b\<lparr>mime := js ''audio/webm''\<rparr>)"
    if "0x2C \<notin> set (mime b)"
    using decode_data_url_read [OF that]
    by (simp add: convertBase64ToAudio_def base64ToBlob_def blobToBase64_def)
  show ?thesis
    unfolding Let_def
    using send_a recv_a dec_a send_b recv_b send_t send_l blobs
      handleData_transcript handleData_translation
    by blast
qed

lemma wav_url:
  "readAsDataURL \<lparr>bytes = [0x00, 0xFF, 0x10], mime = js ''audio/wav''\<rparr>
     = js ''data:audio/wav;base64,AP8Q''"
  by (simp add: readAsDataURL_def base64_encode_def b64_char_def js_def)

theorem audio_payload_round_trip_witness:
  "isConnected (newWebRTCService\<lparr>peer := Some \<lparr>sent = [], sendThrows = False\<rparr>, isConnected := True\<rparr>)
   \<and> peer (newWebRTCService\<lparr>peer := Some \<lparr>sent = [], sendThrows = False\<rparr>, isConnected := True\<rparr>)
       = Some \<lparr>sent = [], sendThrows = False\<rparr>
   \<and> \<not> sendThrows \<lparr>sent = [], sendThrows = False\<rparr>
   \<and> onAudioData (newWebRTCService\<lparr>onAudioData := True\<rparr>)
   \<and> convertBase64ToAudio (js ''data:audio/wav;base64,AP8Q'')
       = Inr \<lparr>bytes = [0x00, 0xFF, 0x10], mime = js ''audio/wav''\<rparr>
   \<and> audioDelivered (handleData
         (JsonObject (audioMessage (js ''data:audio/wav;base64,AP8Q'') 0))
         (newWebRTCService\<lparr>onAudioData := True\<rparr>))
       = [Some (JString (js ''data:audio/wav;base64,AP8Q''))]"
proof -
  let ?tx = "newWebRTCService\<lparr>peer := Some \<lparr>sent = [], sendThrows = False\<rparr>, isConnected := True\<rparr>"
  let ?rx = "newWebRTCService\<lparr>onAudioData := True\<rparr>"
  have a: "isConnected ?tx" and b: "peer ?tx = Some \<lparr>sent = [], sendThrows = False\<rparr>"
    and c: "\<not> sendThrows \<lparr>sent = [], sendThrows = False\<rparr>" and d: "onAudioData ?rx"
    by simp_all
  have e: "audioDelivered ?rx = []" by (simp add: newWebRTCService_def)
  from audio_payload_round_trip [OF a b c d, of "[0x00, 0xFF, 0x10]" 0]
  have "convertBase64ToAudio (js ''data:audio/wav;base64,AP8Q'')
          = Inr \<lparr>bytes = [0x00, 0xFF, 0x10], mime = js ''audio/wav''\<rparr>
      \<and> handleData (JsonObject (audioMessage (js ''data:audio/wav;base64,AP8Q'') 0)) ?rx
          = ?rx\<lparr>audioDelivered := audioDelivered ?rx @ [Some (JString (js ''data:audio/wav;base64,AP8Q''))]\<rparr>"
    unfolding Let_def wav_url by blast
  then have "convertBase64ToAudio (js ''data:audio/wav;base64,AP8Q'')
          = Inr \<lparr>bytes = [0x00, 0xFF, 0x10], mime = js ''audio/wav''\<rparr>
      \<and> audioDelivered (handleData (JsonObject (audioMessage (js ''data:audio/wav;base64,AP8Q'') 0)) ?rx)
          = [Some (JString (js ''data:audio/wav;base64,AP8Q''))]"
    using e by simp
  with a b c d show ?thesis by blast
qed

text \<open>C8 as stated fails for two of the three envelope types: receiving a transcript or a
  translation envelope yields nothing. The blob that the receiver rebuilds from an audio
  envelope has the bytes of the original and the type \<open>audio/wav\<close>, whatever the type of
  the original. And the payload of a blob whose type holds a comma is not recovered:
  \<open>split(',')[1]\<close> is then a piece of the type, which \<open>atob\<close> refuses.\<close>

theorem transcript_envelope_dropped:
  "handleData (JsonObject (transcriptMessage (js ''hi'') (js ''en'') 0))
       (newWebRTCService\<lparr>onAudioData := True\<rparr>)
     = newWebRTCService\<lparr>onAudioData := True\<rparr>
   \<and> audioDelivered (handleData (JsonObject (transcriptMessage (js ''hi'') (js ''en'') 0))
       (newWebRTCService\<lparr>onAudioData := True\<rparr>)) = []
   \<and> handleData (JsonObject (translationMessage (js ''hi'') (js ''hola'') (js ''en'') (js ''es'') 0))
       (newWebRTCService\<lparr>onAudioData := True\<rparr>)
     = newWebRTCService\<lparr>onAudioData := True\<rparr>
   \<and> convertBase64ToAudio (blobToBase64 \<lparr>bytes = [0x00, 0xFF, 0x10], mime = js ''audio/webm''\<rparr>)
     = Inr \<lparr>bytes = [0x00, 0xFF, 0x10], mime = js ''audio/wav''\<rparr>
   \<and> convertBase64ToAudio
       (blobToBase64 \<lparr>bytes = [0x00, 0xFF, 0x10], mime = js ''video/webm;codecs=vp8,opus''\<rparr>)
     = Inl InvalidCharacterError
   \<and> base64ToBlob
       (blobToBase64 \<lparr>bytes = [0x00, 0xFF, 0x10], mime = js ''video/webm;codecs=vp8,opus''\<rparr>)
     = Inl InvalidCharacterError"
proof -
  have "0x2C \<notin> set (mime \<lparr>bytes = [0x00, 0xFF, 0x10], mime = js ''audio/webm''\<rparr>)"
    by (simp add: js_def)
  from decode_data_url_read [OF this]
  have wav: "convertBase64ToAudio
       (blobToBase64 \<lparr>bytes = [0x00, 0xFF, 0x10], mime = js ''audio/webm''\<rparr>)
     = Inr \<lparr>bytes = [0x00, 0xFF, 0x10], mime = js ''audio/wav''\<rparr>"
    by (simp add: convertBase64ToAudio_def blobToBase64_def)
  have piece: "split_on 0x2C
       (readAsDataURL \<lparr>bytes = [0x00, 0xFF, 0x10], mime = js ''video/webm;codecs=vp8,opus''\<rparr>)
     = [js ''data:video/webm;codecs=vp8'', js ''opus;base64'', js ''AP8Q'']"
    by (simp add: readAsDataURL_def base64_encode_def b64_char_def js_def)
  have refused: "atob (js ''opus;base64'') = Inl InvalidCharacterError"
    by (simp add: atob_def strip_padding_def is_ascii_whitespace_def b64_index_def js_def)
  have comma: "decode_data_url
       (readAsDataURL \<lparr>bytes = [0x00, 0xFF, 0x10], mime = js ''video/webm;codecs=vp8,opus''\<rparr>)
     = Inl InvalidCharacterError"
    by (simp add: decode_data_url_def piece refused)
  show ?thesis
    using wav comma
    by (simp add: handleData_transcript handleData_translation newWebRTCService_def
        convertBase64ToAudio_def base64ToBlob_def blobToBase64_def)
qed

end
